theory Spec2Isabelle
  imports Complex_Main "HOL-Library.Sublist"
begin

section \<open>The tower registry of app.py\<close>

text \<open>
  A shallow embedding of \<^verbatim>\<open>src/app.py\<close>: the great-circle distance \<^verbatim>\<open>haversine\<close>, the two
  tables \<^verbatim>\<open>User\<close> and \<^verbatim>\<open>Tower\<close>, and the request handlers.

  Conventions of the embedding.
  \<^item> An exception is a value of \<open>py_exn\<close>; a function of the source that can raise returns
    \<open>py_exn + 'a\<close>, with \<open>Inl\<close> the exception.
  \<^item> The value of \<^verbatim>\<open>request.get_json()\<close> is a \<open>json option\<close>: \<open>None\<close> is Python's
    \<^verbatim>\<open>None\<close>, \<open>Some v\<close> is the parsed body, of any JSON type.
  \<^item> A handler takes the store and returns its outcome and the store after it. An outcome
    is the pair \<^verbatim>\<open>(jsonify(body), status)\<close> the handler returns, or the exception that
    leaves the handler uncaught.
  \<^item> A finite Python \<^verbatim>\<open>float\<close> is the \<^typ>\<open>real\<close> it denotes; a Python \<^verbatim>\<open>int\<close> is an
    \<^typ>\<open>int\<close>. The definition \<open>haversine\<close> below is the formula of lines 15 to 25 in exact
    arithmetic. HOL has no IEEE arithmetic, so what the interpreter computes in floating
    point when a handler calls \<^verbatim>\<open>haversine\<close> is not derived from that formula: it is a
    parameter of the handlers (\<open>float_haversine\<close>), of which a theorem assumes only what it
    states.
  \<^item> In the same way, what Python's \<^verbatim>\<open>float\<close> makes of a string and what the SQLite
    driver makes of a value that is bound to an INTEGER or a TEXT column are parameters
    (\<open>parse_float\<close>, \<open>db_integer\<close>, \<open>db_text\<close>); the cases the source or the language
    fixes (an \<^verbatim>\<open>int\<close> key, a \<^verbatim>\<open>str\<close> or \<^verbatim>\<open>None\<close> text) are written out.
  \<^item> The lists of rows are in insertion order; a row holds what the database stores, which
    is what the handler reads back after the commit.
\<close>

subsection \<open>Exceptions and the functions of the math module\<close>

text \<open>
  \<open>DriverError\<close> stands for any exception of the database driver when it binds a value;
  \<open>IntegrityError\<close> is the failure of a constraint at the commit.
\<close>

datatype py_exn =
    TypeError | ValueError | KeyError | AttributeError | OverflowError
  | IntegrityError | DriverError

text \<open>\<^verbatim>\<open>math.radians\<close>: degrees to radians.\<close>

definition radians :: "real \<Rightarrow> real" where
  "radians x = x * pi / 180"

text \<open>\<^verbatim>\<open>math.sqrt\<close> raises \<^verbatim>\<open>ValueError\<close> (math domain error) below zero.\<close>

definition py_sqrt :: "real \<Rightarrow> py_exn + real" where
  "py_sqrt x = (if x < 0 then Inl ValueError else Inr (sqrt x))"

text \<open>\<^verbatim>\<open>math.asin\<close> raises \<^verbatim>\<open>ValueError\<close> (math domain error) outside \<open>[-1, 1]\<close>.\<close>

definition py_asin :: "real \<Rightarrow> py_exn + real" where
  "py_asin x = (if x < - 1 \<or> 1 < x then Inl ValueError else Inr (arcsin x))"

subsection \<open>haversine (app.py, lines 15 to 25)\<close>

definition haversine :: "real \<Rightarrow> real \<Rightarrow> real \<Rightarrow> real \<Rightarrow> py_exn + real" where
  "haversine lat1 lon1 lat2 lon2 =
     (let rlat1 = radians lat1; rlon1 = radians lon1;
          rlat2 = radians lat2; rlon2 = radians lon2;
          dlon = rlon2 - rlon1;
          dlat = rlat2 - rlat1;
          a = (sin (dlat / 2))\<^sup>2 + cos rlat1 * cos rlat2 * (sin (dlon / 2))\<^sup>2
      in case py_sqrt a of
           Inl e \<Rightarrow> Inl e
         | Inr sq \<Rightarrow>
             (case py_asin sq of
                Inl e \<Rightarrow> Inl e
              | Inr angle \<Rightarrow> Inr ((2 * angle) * 6371)))"

text \<open>
  The reference definition of section 4.1 of the specification, written from its words:
  all four inputs in radians, \<open>dlat\<close>, \<open>dlon\<close>, \<open>a\<close>, \<open>c = 2 asin (sqrt a)\<close> and
  \<open>distance = 6371 c\<close>, with the mathematical square root and arc sine.
\<close>

definition haversine_reference :: "real \<Rightarrow> real \<Rightarrow> real \<Rightarrow> real \<Rightarrow> real" where
  "haversine_reference lat1 lon1 lat2 lon2 =
     (let dlat = radians lat2 - radians lat1;
          dlon = radians lon2 - radians lon1;
          a = (sin (dlat / 2))\<^sup>2
              + cos (radians lat1) * cos (radians lat2) * (sin (dlon / 2))\<^sup>2;
          c = 2 * arcsin (sqrt a)
      in 6371 * c)"

subsection \<open>JSON values and the Python operations the handlers apply to them\<close>

datatype json =
    JNull
  | JBool bool
  | JInt int
  | JFloat real
  | JStr string
  | JArr "json list"
  | JObj "(string \<times> json) list"

text \<open>Truth value of a Python object, as \<^verbatim>\<open>not data\<close> tests it.\<close>

fun truthy :: "json \<Rightarrow> bool" where
  "truthy JNull = False"
| "truthy (JBool b) = b"
| "truthy (JInt i) = (i \<noteq> 0)"
| "truthy (JFloat r) = (r \<noteq> 0)"
| "truthy (JStr s) = (s \<noteq> [])"
| "truthy (JArr xs) = (xs \<noteq> [])"
| "truthy (JObj kvs) = (kvs \<noteq> [])"

text \<open>
  \<^verbatim>\<open>key in data\<close> for a string key: a key of a dict, an element of a list, a substring
  of a string; a number, a boolean and \<^verbatim>\<open>None\<close> are not iterable (\<^verbatim>\<open>TypeError\<close>).
\<close>

fun py_in :: "string \<Rightarrow> json \<Rightarrow> py_exn + bool" where
  "py_in k (JObj kvs) = Inr (map_of kvs k \<noteq> None)"
| "py_in k (JArr xs) = Inr (JStr k \<in> set xs)"
| "py_in k (JStr s) = Inr (sublist k s)"
| "py_in k JNull = Inl TypeError"
| "py_in k (JBool b) = Inl TypeError"
| "py_in k (JInt i) = Inl TypeError"
| "py_in k (JFloat r) = Inl TypeError"

text \<open>
  \<^verbatim>\<open>data[key]\<close> for a string key: the value of a dict (\<^verbatim>\<open>KeyError\<close> when the key is
  missing); every other type refuses a string subscript (\<^verbatim>\<open>TypeError\<close>).
\<close>

fun py_getitem :: "json \<Rightarrow> string \<Rightarrow> py_exn + json" where
  "py_getitem (JObj kvs) k = (case map_of kvs k of None \<Rightarrow> Inl KeyError | Some v \<Rightarrow> Inr v)"
| "py_getitem (JArr xs) k = Inl TypeError"
| "py_getitem (JStr s) k = Inl TypeError"
| "py_getitem JNull k = Inl TypeError"
| "py_getitem (JBool b) k = Inl TypeError"
| "py_getitem (JInt i) k = Inl TypeError"
| "py_getitem (JFloat r) k = Inl TypeError"

subsection \<open>The platform: floating point, string parsing, the database driver\<close>

text \<open>
  What the handlers get from below the source.
  \<^item> \<open>float_haversine\<close>: the result of a call of \<^verbatim>\<open>haversine\<close> as the interpreter computes
    it in floating point, or the exception it raises (\<^verbatim>\<open>math.sqrt\<close> and \<^verbatim>\<open>math.asin\<close>
    raise \<^verbatim>\<open>ValueError\<close> outside their domains).
  \<^item> \<open>parse_float\<close>: \<^verbatim>\<open>float(s)\<close> for a string, \<open>None\<close> where Python rejects it.
  \<^item> \<open>db_integer\<close>: the integer SQLite reads a bound value as, for a value that is not a
    Python \<^verbatim>\<open>int\<close>: \<open>Inr None\<close> when it is no integer (it then equals no identifier),
    \<open>Inl\<close> when the driver refuses to bind it.
  \<^item> \<open>db_text\<close>: the text SQLite stores in a TEXT column for a bound value that is neither
    a \<^verbatim>\<open>str\<close> nor \<^verbatim>\<open>None\<close>: \<open>Inr None\<close> for NULL, \<open>Inl\<close> when the driver refuses it.
\<close>

record platform =
  float_haversine :: "real \<Rightarrow> real \<Rightarrow> real \<Rightarrow> real \<Rightarrow> py_exn + real"
  parse_float :: "string \<Rightarrow> real option"
  db_integer :: "json \<Rightarrow> py_exn + int option"
  db_text :: "json \<Rightarrow> py_exn + string option"

text \<open>
  \<^verbatim>\<open>float(v)\<close>: a float is itself, a boolean is 1 or 0, a string is parsed
  (\<^verbatim>\<open>ValueError\<close> when it is not a number), \<^verbatim>\<open>None\<close>, a list and a dict raise
  \<^verbatim>\<open>TypeError\<close>. An \<^verbatim>\<open>int\<close> converts when it rounds to a finite double, that is below
  \<open>2^1024 - 2^970\<close> in absolute value, and raises \<^verbatim>\<open>OverflowError\<close> otherwise. The value
  kept for an \<^verbatim>\<open>int\<close> is the integer itself: rounding moves no integer into or out of the
  ranges the handler tests.
\<close>

fun py_float :: "platform \<Rightarrow> json \<Rightarrow> py_exn + real" where
  "py_float env JNull = Inl TypeError"
| "py_float env (JBool b) = Inr (if b then 1 else 0)"
| "py_float env (JInt i) =
     (if \<bar>i\<bar> < 2 ^ 1024 - 2 ^ 970 then Inr (of_int i) else Inl OverflowError)"
| "py_float env (JFloat r) = Inr r"
| "py_float env (JStr s) =
     (case parse_float env s of None \<Rightarrow> Inl ValueError | Some r \<Rightarrow> Inr r)"
| "py_float env (JArr xs) = Inl TypeError"
| "py_float env (JObj kvs) = Inl TypeError"

text \<open>
  A Python \<^verbatim>\<open>int\<close> bound to a statement: SQLite integers have 64 bits, and the driver
  raises \<^verbatim>\<open>OverflowError\<close> for an \<^verbatim>\<open>int\<close> outside them.
\<close>

definition sqlite_integer :: "int \<Rightarrow> py_exn + int" where
  "sqlite_integer i =
     (if - (2 ^ 63) \<le> i \<and> i < 2 ^ 63 then Inr i else Inl OverflowError)"

text \<open>A value bound where the column is INTEGER (the primary keys, \<^verbatim>\<open>Tower.user_id\<close>).\<close>

definition bind_integer :: "platform \<Rightarrow> json \<Rightarrow> py_exn + int option" where
  "bind_integer env v =
     (case v of
        JInt i \<Rightarrow> (case sqlite_integer i of Inl e \<Rightarrow> Inl e | Inr k \<Rightarrow> Inr (Some k))
      | _ \<Rightarrow> db_integer env v)"

text \<open>A value bound where the column is TEXT (the three strings of \<^verbatim>\<open>User\<close>).\<close>

definition bind_text :: "platform \<Rightarrow> json \<Rightarrow> py_exn + string option" where
  "bind_text env v =
     (case v of
        JStr s \<Rightarrow> Inr (Some s)
      | JNull \<Rightarrow> Inr None
      | _ \<Rightarrow> db_text env v)"

subsection \<open>The tables (app.py, lines 28 to 57)\<close>

text \<open>\<open>uid\<close> is \<^verbatim>\<open>User.id\<close> and \<open>tid\<close> is \<^verbatim>\<open>Tower.id\<close>.\<close>

record user =
  uid :: int
  first_name :: string
  last_name :: string
  email :: string

record tower =
  tid :: int
  latitude :: real
  longitude :: real
  user_id :: int

record store =
  users :: "user list"
  towers :: "tower list"

definition empty_store :: store where
  "empty_store = \<lparr>users = [], towers = []\<rparr>"

text \<open>
  Modelled from the spec: the generator of the integer primary keys, which belongs to the
  database behind \<^verbatim>\<open>db.session.add\<close> and \<^verbatim>\<open>db.session.commit\<close> and is not part of
  app.py. Section 4.3 has the store assign identifiers uniquely and monotonically, and the
  scenario of section 8 numbers the first row 1 and the second 2: the next identifier is
  one more than the largest in the table, and 1 in an empty table.
\<close>

definition next_id :: "int list \<Rightarrow> int" where
  "next_id ids = (case ids of [] \<Rightarrow> 1 | i # rest \<Rightarrow> fold max rest i + 1)"

text \<open>
  \<^verbatim>\<open>User.query.get(key)\<close> for a value of the request body (line 93): the key is bound as
  an integer; a key that is no integer finds nothing.
\<close>

definition query_get_user :: "platform \<Rightarrow> user list \<Rightarrow> json \<Rightarrow> py_exn + user option" where
  "query_get_user env us key =
     (case bind_integer env key of
        Inl e \<Rightarrow> Inl e
      | Inr None \<Rightarrow> Inr None
      | Inr (Some i) \<Rightarrow> Inr (find (\<lambda>u. uid u = i) us))"

text \<open>\<^verbatim>\<open>User.query.get(user_id)\<close> with the integer of the route (line 136).\<close>

definition query_get_user_id :: "user list \<Rightarrow> int \<Rightarrow> py_exn + user option" where
  "query_get_user_id us i =
     (case sqlite_integer i of
        Inl e \<Rightarrow> Inl e
      | Inr k \<Rightarrow> Inr (find (\<lambda>u. uid u = k) us))"

text \<open>\<^verbatim>\<open>Tower.query.get(tower_id)\<close> with the integer of the route (line 72).\<close>

definition query_get_tower :: "tower list \<Rightarrow> int \<Rightarrow> py_exn + tower option" where
  "query_get_tower ts i =
     (case sqlite_integer i of
        Inl e \<Rightarrow> Inl e
      | Inr k \<Rightarrow> Inr (find (\<lambda>t. tid t = k) ts))"

text \<open>
  \<^verbatim>\<open>db.session.add(new_user); db.session.commit()\<close>: the three values are bound as
  text; a NULL in a \<^verbatim>\<open>nullable=False\<close> column or a second row with the same email
  (\<^verbatim>\<open>unique=True\<close>) fails the commit with \<^verbatim>\<open>IntegrityError\<close>; otherwise the row gets
  its identifier.
\<close>

definition add_user :: "platform \<Rightarrow> store \<Rightarrow> json \<Rightarrow> json \<Rightarrow> json \<Rightarrow> py_exn + (user \<times> store)" where
  "add_user env s fname lname mail =
     (case bind_text env fname of
        Inl e \<Rightarrow> Inl e
      | Inr f \<Rightarrow>
          (case bind_text env lname of
             Inl e \<Rightarrow> Inl e
           | Inr l \<Rightarrow>
               (case bind_text env mail of
                  Inl e \<Rightarrow> Inl e
                | Inr m \<Rightarrow>
                    (case (f, l, m) of
                       (Some ftext, Some ltext, Some mtext) \<Rightarrow>
                         if mtext \<in> set (map email (users s)) then Inl IntegrityError
                         else let new_user = \<lparr>uid = next_id (map uid (users s)),
                                               first_name = ftext, last_name = ltext,
                                               email = mtext\<rparr>
                              in Inr (new_user, s\<lparr>users := users s @ [new_user]\<rparr>)
                     | _ \<Rightarrow> Inl IntegrityError))))"

text \<open>
  \<^verbatim>\<open>db.session.add(new_tower); db.session.commit()\<close>. \<open>owner\<close> is the integer the
  database reads \<^verbatim>\<open>data['user_id']\<close> as, the one line 93 has just looked up.
\<close>

definition add_tower :: "store \<Rightarrow> real \<Rightarrow> real \<Rightarrow> int \<Rightarrow> tower \<times> store" where
  "add_tower s lat lon owner =
     (let new_tower = \<lparr>tid = next_id (map tid (towers s)),
                        latitude = lat, longitude = lon, user_id = owner\<rparr>
      in (new_tower, s\<lparr>towers := towers s @ [new_tower]\<rparr>))"

text \<open>\<^verbatim>\<open>User.to_dict\<close>.\<close>

definition user_to_dict :: "user \<Rightarrow> json" where
  "user_to_dict u =
     JObj [(''id'', JInt (uid u)),
           (''first_name'', JStr (first_name u)),
           (''last_name'', JStr (last_name u)),
           (''email'', JStr (email u))]"

text \<open>
  \<^verbatim>\<open>Tower.to_dict\<close>. \<^verbatim>\<open>self.user\<close> is the row of \<^verbatim>\<open>User\<close> the foreign key points
  to, or \<^verbatim>\<open>None\<close>, on which \<^verbatim>\<open>.to_dict()\<close> raises \<^verbatim>\<open>AttributeError\<close>.
\<close>

definition tower_to_dict :: "store \<Rightarrow> tower \<Rightarrow> py_exn + json" where
  "tower_to_dict s t =
     (case find (\<lambda>u. uid u = user_id t) (users s) of
        None \<Rightarrow> Inl AttributeError
      | Some u \<Rightarrow>
          Inr (JObj [(''id'', JInt (tid t)),
                     (''latitude'', JFloat (latitude t)),
                     (''longitude'', JFloat (longitude t)),
                     (''user_id'', JInt (user_id t)),
                     (''user'', user_to_dict u)]))"

text \<open>\<^verbatim>\<open>[tower.to_dict() for tower in towers]\<close>: the first exception ends it.\<close>

fun towers_to_dicts :: "store \<Rightarrow> tower list \<Rightarrow> py_exn + json list" where
  "towers_to_dicts s [] = Inr []"
| "towers_to_dicts s (t # ts) =
     (case tower_to_dict s t of
        Inl e \<Rightarrow> Inl e
      | Inr d \<Rightarrow> (case towers_to_dicts s ts of Inl e \<Rightarrow> Inl e | Inr ds \<Rightarrow> Inr (d # ds)))"

subsection \<open>The handlers (app.py, lines 63 to 147)\<close>

datatype outcome = Response json nat | Uncaught py_exn

definition error_body :: "string \<Rightarrow> json" where
  "error_body msg = JObj [(''error'', JStr msg)]"

text \<open>
  \<^verbatim>\<open>k1 not in data or k2 not in data or ...\<close>, left to right: \<open>Inr True\<close> at the first
  key that is not in \<open>data\<close>, the exception of \<^verbatim>\<open>in\<close> if it raises first.
\<close>

fun some_key_missing :: "json \<Rightarrow> string list \<Rightarrow> py_exn + bool" where
  "some_key_missing d [] = Inr False"
| "some_key_missing d (k # ks) =
     (case py_in k d of
        Inl e \<Rightarrow> Inl e
      | Inr present \<Rightarrow> if \<not> present then Inr True else some_key_missing d ks)"

text \<open>\<^verbatim>\<open>not data or k1 not in data or ...\<close> (lines 81 and 111).\<close>

definition fields_missing :: "json option \<Rightarrow> string list \<Rightarrow> py_exn + bool" where
  "fields_missing data ks =
     (case data of
        None \<Rightarrow> Inr True
      | Some d \<Rightarrow> if \<not> truthy d then Inr True else some_key_missing d ks)"

text \<open>The two conversions inside the \<^verbatim>\<open>try\<close> of lines 84 to 86.\<close>

definition read_coordinates :: "platform \<Rightarrow> json \<Rightarrow> py_exn + (real \<times> real)" where
  "read_coordinates env d =
     (case py_getitem d ''latitude'' of
        Inl e \<Rightarrow> Inl e
      | Inr vlat \<Rightarrow>
          (case py_float env vlat of
             Inl e \<Rightarrow> Inl e
           | Inr lat \<Rightarrow>
               (case py_getitem d ''longitude'' of
                  Inl e \<Rightarrow> Inl e
                | Inr vlon \<Rightarrow>
                    (case py_float env vlon of
                       Inl e \<Rightarrow> Inl e
                     | Inr lon \<Rightarrow> Inr (lat, lon)))))"

text \<open>
  The loop of lines 98 to 100 over \<^verbatim>\<open>Tower.query.all()\<close>: \<open>Inr True\<close> at the first
  tower for which the call of \<^verbatim>\<open>haversine\<close> returns less than 1.0, \<open>Inr False\<close> when the
  loop ends, the exception of the call if it raises.
\<close>

fun within_1km :: "platform \<Rightarrow> tower list \<Rightarrow> real \<Rightarrow> real \<Rightarrow> py_exn + bool" where
  "within_1km env [] lat lon = Inr False"
| "within_1km env (t # ts) lat lon =
     (case float_haversine env (latitude t) (longitude t) lat lon of
        Inl e \<Rightarrow> Inl e
      | Inr d \<Rightarrow> if d < 1.0 then Inr True else within_1km env ts lat lon)"

text \<open>Lines 92 to 105 of \<^verbatim>\<open>create_tower\<close>, after the coordinates are read and in range.\<close>

definition place_tower :: "platform \<Rightarrow> store \<Rightarrow> json \<Rightarrow> real \<Rightarrow> real \<Rightarrow> outcome \<times> store" where
  "place_tower env s d lat lon =
     (case py_getitem d ''user_id'' of
        Inl e \<Rightarrow> (Uncaught e, s)
      | Inr owner \<Rightarrow>
          (case query_get_user env (users s) owner of
             Inl e \<Rightarrow> (Uncaught e, s)
           | Inr None \<Rightarrow> (Response (error_body ''User not found'') 404, s)
           | Inr (Some u) \<Rightarrow>
               (case within_1km env (towers s) lat lon of
                  Inl e \<Rightarrow> (Uncaught e, s)
                | Inr True \<Rightarrow>
                    (Response (error_body ''Tower already exists within 1km'') 400, s)
                | Inr False \<Rightarrow>
                    (case add_tower s lat lon (uid u) of
                       (new_tower, s') \<Rightarrow>
                         (case tower_to_dict s' new_tower of
                            Inl e \<Rightarrow> (Uncaught e, s')
                          | Inr body \<Rightarrow> (Response body 201, s'))))))"

text \<open>\<^verbatim>\<open>create_tower\<close> (lines 78 to 105).\<close>

definition create_tower :: "platform \<Rightarrow> store \<Rightarrow> json option \<Rightarrow> outcome \<times> store" where
  "create_tower env s data =
     (case fields_missing data [''latitude'', ''longitude'', ''user_id''] of
        Inl e \<Rightarrow> (Uncaught e, s)
      | Inr True \<Rightarrow> (Response (error_body ''Missing latitude, longitude, or user_id'') 400, s)
      | Inr False \<Rightarrow>
          (case data of
             None \<Rightarrow> (Response (error_body ''Missing latitude, longitude, or user_id'') 400, s)
           | Some d \<Rightarrow>
               (case read_coordinates env d of
                  Inl e \<Rightarrow>
                    if e = ValueError \<or> e = TypeError
                    then (Response (error_body ''Latitude and longitude must be numbers'') 400, s)
                    else (Uncaught e, s)
                | Inr (lat, lon) \<Rightarrow>
                    if \<not> (- 90 \<le> lat \<and> lat \<le> 90) \<or> \<not> (- 180 \<le> lon \<and> lon \<le> 180)
                    then (Response (error_body ''Invalid GPS coordinates'') 400, s)
                    else place_tower env s d lat lon)))"

text \<open>
  \<^verbatim>\<open>User.query.filter_by(email=value).first()\<close> (line 115): the value is bound as text
  and compared with the stored emails; NULL equals none of them.
\<close>

definition query_email :: "platform \<Rightarrow> user list \<Rightarrow> json \<Rightarrow> py_exn + user option" where
  "query_email env us v =
     (case bind_text env v of
        Inl e \<Rightarrow> Inl e
      | Inr None \<Rightarrow> Inr None
      | Inr (Some mtext) \<Rightarrow> Inr (find (\<lambda>u. email u = mtext) us))"

text \<open>Lines 114 to 125 of \<^verbatim>\<open>create_user\<close>, after the check of line 111.\<close>

definition register_user :: "platform \<Rightarrow> store \<Rightarrow> json \<Rightarrow> outcome \<times> store" where
  "register_user env s d =
     (case py_getitem d ''email'' of
        Inl e \<Rightarrow> (Uncaught e, s)
      | Inr mail \<Rightarrow>
          (case query_email env (users s) mail of
             Inl e \<Rightarrow> (Uncaught e, s)
           | Inr (Some u) \<Rightarrow> (Response (error_body ''Email already exists'') 400, s)
           | Inr None \<Rightarrow>
               (case py_getitem d ''first_name'' of
                  Inl e \<Rightarrow> (Uncaught e, s)
                | Inr fname \<Rightarrow>
                    (case py_getitem d ''last_name'' of
                       Inl e \<Rightarrow> (Uncaught e, s)
                     | Inr lname \<Rightarrow>
                         (case add_user env s fname lname mail of
                            Inl e \<Rightarrow> (Uncaught e, s)
                          | Inr (new_user, s') \<Rightarrow>
                              (Response (user_to_dict new_user) 201, s'))))))"

text \<open>\<^verbatim>\<open>create_user\<close> (lines 108 to 125).\<close>

definition create_user :: "platform \<Rightarrow> store \<Rightarrow> json option \<Rightarrow> outcome \<times> store" where
  "create_user env s data =
     (case fields_missing data [''first_name'', ''last_name'', ''email''] of
        Inl e \<Rightarrow> (Uncaught e, s)
      | Inr True \<Rightarrow> (Response (error_body ''Missing first_name, last_name, or email'') 400, s)
      | Inr False \<Rightarrow>
          (case data of
             None \<Rightarrow> (Response (error_body ''Missing first_name, last_name, or email'') 400, s)
           | Some d \<Rightarrow> register_user env s d))"

text \<open>\<^verbatim>\<open>get_tower\<close> (lines 70 to 75).\<close>

definition get_tower :: "store \<Rightarrow> int \<Rightarrow> outcome" where
  "get_tower s tower_id =
     (case query_get_tower (towers s) tower_id of
        Inl e \<Rightarrow> Uncaught e
      | Inr (Some t) \<Rightarrow>
          (case tower_to_dict s t of Inl e \<Rightarrow> Uncaught e | Inr body \<Rightarrow> Response body 200)
      | Inr None \<Rightarrow> Response (error_body ''Tower not found'') 404)"

text \<open>\<^verbatim>\<open>get_user\<close> (lines 134 to 139).\<close>

definition get_user :: "store \<Rightarrow> int \<Rightarrow> outcome" where
  "get_user s i =
     (case query_get_user_id (users s) i of
        Inl e \<Rightarrow> Uncaught e
      | Inr (Some u) \<Rightarrow> Response (user_to_dict u) 200
      | Inr None \<Rightarrow> Response (error_body ''User not found'') 404)"

text \<open>
  \<^verbatim>\<open>get_towers_by_user_id\<close> (lines 142 to 147): the integer of the route is bound in
  \<^verbatim>\<open>filter_by(user_id=user_id)\<close>.
\<close>

definition get_towers_by_user_id :: "store \<Rightarrow> int \<Rightarrow> outcome" where
  "get_towers_by_user_id s i =
     (case sqlite_integer i of
        Inl e \<Rightarrow> Uncaught e
      | Inr k \<Rightarrow>
          (case towers_to_dicts s (filter (\<lambda>t. user_id t = k) (towers s)) of
             Inl e \<Rightarrow> Uncaught e
           | Inr ds \<Rightarrow> Response (JArr ds) 200))"

subsection \<open>Sequences of requests\<close>

datatype request = POST_towers "json option" | POST_users "json option"

fun handle :: "platform \<Rightarrow> store \<Rightarrow> request \<Rightarrow> outcome \<times> store" where
  "handle env s (POST_towers data) = create_tower env s data"
| "handle env s (POST_users data) = create_user env s data"

text \<open>The store after a sequence of requests, served one after the other from the empty store.\<close>

definition run :: "platform \<Rightarrow> request list \<Rightarrow> store" where
  "run env reqs = foldl (\<lambda>s r. snd (handle env s r)) empty_store reqs"

subsection \<open>The invariant of the towers\<close>

text \<open>
  The invariant of section 3 of the specification, with the distance as the code has it:
  for any two rows of the table of towers, the call of \<^verbatim>\<open>haversine\<close> from the earlier row
  to the later one, which is the call line 99 makes, returns 1.0 km or more.
\<close>

definition separated :: "platform \<Rightarrow> tower list \<Rightarrow> bool" where
  "separated env ts \<longleftrightarrow>
     (\<forall>j<length ts. \<forall>i<j.
        (\<exists>d. float_haversine env (latitude (ts ! i)) (longitude (ts ! i))
                                   (latitude (ts ! j)) (longitude (ts ! j)) = Inr d \<and> 1 \<le> d))"

text \<open>
  What every store reached from the empty one satisfies: each tower points to a row of
  \<^verbatim>\<open>User\<close>, the identifiers grow along each table, and the towers are separated.
\<close>

definition consistent :: "platform \<Rightarrow> store \<Rightarrow> bool" where
  "consistent env s \<longleftrightarrow>
     (\<forall>t\<in>set (towers s). find (\<lambda>u. uid u = user_id t) (users s) \<noteq> None)
     \<and> sorted_wrt (<) (map uid (users s))
     \<and> sorted_wrt (<) (map tid (towers s))
     \<and> separated env (towers s)"

subsection \<open>A sequence of requests on the equator\<close>

text \<open>
  A platform for the examples: the distance of the exact formula, no string that parses,
  and a driver that takes integers for integers and strings for text and nothing else.
\<close>

definition exact_platform :: platform where
  "exact_platform =
     \<lparr>float_haversine = haversine,
      parse_float = (\<lambda>s. None),
      db_integer = (\<lambda>v. Inr None),
      db_text = (\<lambda>v. Inl DriverError)\<rparr>"

text \<open>
  The scenario of section 8 of the specification, with towers on the equator, where the
  distance has a closed form: a user, a tower at (0, 0), a second request for (0, 0), which
  is refused, and a tower at (0, 1), one degree of longitude away.
\<close>

definition user_body :: json where
  "user_body = JObj [(''first_name'', JStr ''A''), (''last_name'', JStr ''B''),
                     (''email'', JStr ''a@b.com'')]"

definition tower_body :: "int \<Rightarrow> int \<Rightarrow> int \<Rightarrow> json" where
  "tower_body lat lon owner =
     JObj [(''latitude'', JInt lat), (''longitude'', JInt lon), (''user_id'', JInt owner)]"

definition scenario :: "request list" where
  "scenario = [POST_users (Some user_body),
               POST_towers (Some (tower_body 0 0 1)),
               POST_towers (Some (tower_body 0 0 1)),
               POST_towers (Some (tower_body 0 1 1))]"

definition scenario_user :: user where
  "scenario_user = \<lparr>uid = 1, first_name = ''A'', last_name = ''B'', email = ''a@b.com''\<rparr>"

text \<open>The store after the first tower, and the store after the whole scenario.\<close>

definition one_tower_store :: store where
  "one_tower_store =
     \<lparr>users = [scenario_user],
      towers = [\<lparr>tid = 1, latitude = 0, longitude = 0, user_id = 1\<rparr>]\<rparr>"

definition scenario_store :: store where
  "scenario_store =
     \<lparr>users = [scenario_user],
      towers = [\<lparr>tid = 1, latitude = 0, longitude = 0, user_id = 1\<rparr>,
                \<lparr>tid = 2, latitude = 0, longitude = 1, user_id = 1\<rparr>]\<rparr>"

section \<open>Properties\<close>

subsection \<open>The distance\<close>

lemma haversine_argument_bounds:
  fixes p q l :: real
  defines "a \<equiv> (sin ((q - p) / 2))\<^sup>2 + cos p * cos q * (sin (l / 2))\<^sup>2"
  shows "0 \<le> a \<and> a \<le> 1"
proof -
  define s where "s = (sin (l / 2))\<^sup>2"
  define c1 where "c1 = cos (q - p)"
  define c2 where "c2 = cos (p + q)"
  have s0: "0 \<le> s" unfolding s_def by simp
  have s1: "s \<le> 1" unfolding s_def by (simp add: sin_squared_eq)
  have c1b: "- 1 \<le> c1" "c1 \<le> 1" and c2b: "- 1 \<le> c2" "c2 \<le> 1"
    unfolding c1_def c2_def by simp_all
  have e: "2 * ((q - p) / 2) = q - p" by simp
  have "cos (q - p) = 1 - 2 * (sin ((q - p) / 2))\<^sup>2"
    using cos_double_sin[of "(q - p) / 2"] unfolding e .
  then have h1: "(sin ((q - p) / 2))\<^sup>2 = (1 - c1) / 2"
    unfolding c1_def by argo
  have h2: "cos p * cos q = (c1 + c2) / 2"
    using cos_times_cos[of p q] cos_minus[of "q - p"] unfolding c1_def c2_def by simp
  have a_eq: "2 * a = 1 - (1 - s) * c1 + s * c2"
    unfolding a_def h1 h2 s_def[symmetric] by (simp add: field_simps)
  have "0 \<le> (1 - s) * (1 + c1)" "0 \<le> (1 - s) * (1 - c1)"
       "0 \<le> s * (1 + c2)" "0 \<le> s * (1 - c2)"
    using s0 s1 c1b c2b by simp_all
  then have "0 \<le> 2 * a \<and> 2 * a \<le> 2" unfolding a_eq by (simp add: algebra_simps)
  then show ?thesis by simp
qed

text \<open>
  In exact arithmetic the argument of the square root lies between 0 and 1, so the formula
  never leaves the domains of \<^verbatim>\<open>sqrt\<close> and \<^verbatim>\<open>asin\<close> and has the value of section 4.1.
\<close>

lemma haversine_value:
  "haversine lat1 lon1 lat2 lon2 = Inr (haversine_reference lat1 lon1 lat2 lon2)"
proof -
  define a where "a = (sin ((radians lat2 - radians lat1) / 2))\<^sup>2
      + cos (radians lat1) * cos (radians lat2) * (sin ((radians lon2 - radians lon1) / 2))\<^sup>2"
  have b: "0 \<le> a \<and> a \<le> 1"
    unfolding a_def by (rule haversine_argument_bounds)
  then have r: "0 \<le> sqrt a \<and> sqrt a \<le> 1" by simp
  have 1: "py_sqrt a = Inr (sqrt a)" using b by (simp add: py_sqrt_def)
  have "\<not> (sqrt a < - 1 \<or> 1 < sqrt a)" using r by argo
  then have 2: "py_asin (sqrt a) = Inr (arcsin (sqrt a))"
    unfolding py_asin_def by (rule if_not_P)
  show ?thesis
    unfolding haversine_def haversine_reference_def Let_def a_def[symmetric]
    by (simp add: 1 2)
qed

lemma haversine_reference_same: "haversine_reference lat lon lat lon = 0"
  by (simp add: haversine_reference_def)

lemma haversine_reference_sym:
  "haversine_reference lat1 lon1 lat2 lon2 = haversine_reference lat2 lon2 lat1 lon1"
proof -
  have s: "(sin ((x - y) / 2))\<^sup>2 = (sin ((y - x) / 2))\<^sup>2" for x y :: real
  proof -
    have "(x - y) / 2 = - ((y - x) / 2)" by argo
    then have "sin ((x - y) / 2) = - sin ((y - x) / 2)" by (simp only: sin_minus)
    then show ?thesis by simp
  qed
  show ?thesis
    unfolding haversine_reference_def Let_def
    by (simp add: s[of "radians lat2" "radians lat1"] s[of "radians lon2" "radians lon1"] mult.commute)
qed

lemma sin_taylor5:
  fixes x :: real
  assumes "0 \<le> x"
  shows "\<bar>sin x - (x - x^3 / 6)\<bar> \<le> x^5 / 120"
  using Maclaurin_sin_bound[of x 5] assms
  by (simp add: sin_coeff_def lessThan_nat_numeral fact_numeral)

lemma sin_522: "sin (0.522::real) < 1/2"
proof -
  define x :: real where "x = 0.522"
  have "\<bar>sin x - (x - x^3 / 6)\<bar> \<le> x^5 / 120"
    by (rule sin_taylor5) (simp add: x_def)
  then have "sin x \<le> (x - x^3 / 6) + x^5 / 120" by linarith
  also have "\<dots> < 1/2" unfolding x_def by (simp add: power_numeral_reduce)
  finally show ?thesis unfolding x_def .
qed

lemma sin_525: "1/2 < sin (0.525::real)"
proof -
  define x :: real where "x = 0.525"
  have "\<bar>sin x - (x - x^3 / 6)\<bar> \<le> x^5 / 120"
    by (rule sin_taylor5) (simp add: x_def)
  then have "(x - x^3 / 6) - x^5 / 120 \<le> sin x" by linarith
  moreover have "1/2 < (x - x^3 / 6) - x^5 / 120"
    unfolding x_def by (simp add: power_numeral_reduce)
  ultimately show ?thesis unfolding x_def by linarith
qed

lemma pi_lower: "3.132 < pi"
proof (rule ccontr)
  assume "\<not> 3.132 < pi"
  then have "pi / 6 \<le> 0.522" by simp
  moreover have "0.522 \<le> pi / 2" using pi_ge_two by simp
  ultimately have "sin (pi / 6) \<le> sin (0.522::real)"
    by (intro sin_monotone_2pi_le) simp_all
  with sin_522 show False by (simp add: sin_30)
qed

lemma pi_upper: "pi < 3.15"
proof (rule ccontr)
  assume "\<not> pi < 3.15"
  then have "0.525 \<le> pi / 6" by simp
  then have "sin (0.525::real) \<le> sin (pi / 6)"
    by (intro sin_monotone_2pi_le) simp_all
  with sin_525 show False by (simp add: sin_30)
qed

lemma haversine_reference_equator_degree:
  "haversine_reference 0 0 0 1 = 6371 * pi / 180"
proof -
  have pos: "0 \<le> sin (pi / 360)"
    by (rule sin_ge_zero) (use pi_ge_zero in simp_all)
  have "arcsin (sin (pi / 360)) = pi / 360"
    by (rule arcsin_sin) simp_all
  then show ?thesis
    using pos by (simp add: haversine_reference_def radians_def)
qed

text \<open>
  Claim C8. The distance from a point to itself is 0; the distance is symmetric in its two
  points; and the distance between (0, 0) and (0, 1) is within 0.5 km of 111.19 km.
\<close>

theorem haversine_zero_symmetric_fixture:
  "haversine lat lon lat lon = Inr 0
   \<and> haversine lat1 lon1 lat2 lon2 = haversine lat2 lon2 lat1 lon1
   \<and> (\<exists>d. haversine 0 0 0 1 = Inr d \<and> \<bar>d - 111.19\<bar> \<le> 0.5)"
proof -
  have 1: "haversine lat lon lat lon = Inr 0"
    by (simp add: haversine_value haversine_reference_same)
  have 2: "haversine lat1 lon1 lat2 lon2 = haversine lat2 lon2 lat1 lon1"
    using haversine_reference_sym[of lat1 lon1 lat2 lon2] by (simp add: haversine_value)
  have "783 / 250 < pi" "pi < 63 / 20"
    using pi_lower pi_upper by simp_all
  then have "\<bar>6371 * pi / 180 - 11119 / 100\<bar> \<le> 1 / 2"
    by argo
  then have b: "\<bar>6371 * pi / 180 - 111.19\<bar> \<le> 0.5"
    by simp
  have v: "haversine 0 0 0 1 = Inr (6371 * pi / 180)"
    by (simp only: haversine_value haversine_reference_equator_degree)
  from v b have 3: "\<exists>d. haversine 0 0 0 1 = Inr d \<and> \<bar>d - 111.19\<bar> \<le> 0.5"
    by blast
  from 1 2 3 show ?thesis by blast
qed

subsection \<open>Identifiers, lookups and the proximity loop\<close>

lemma fold_max_start: "(i::int) \<le> fold max rest i"
proof (induction rest arbitrary: i)
  case Nil
  then show ?case by simp
next
  case (Cons r rest)
  have "i \<le> max r i" by simp
  also have "\<dots> \<le> fold max rest (max r i)" by (rule Cons.IH)
  finally show ?case by simp
qed

lemma fold_max_member: "(x::int) \<in> set rest \<Longrightarrow> x \<le> fold max rest i"
proof (induction rest arbitrary: i)
  case Nil
  then show ?case by simp
next
  case (Cons r rest)
  show ?case
  proof (cases "x = r")
    case True
    have "r \<le> max r i" by simp
    also have "\<dots> \<le> fold max rest (max r i)" by (rule fold_max_start)
    finally show ?thesis using True by simp
  next
    case False
    with Cons.prems have "x \<in> set rest" by simp
    then show ?thesis using Cons.IH by simp
  qed
qed

lemma next_id_greater: "x \<in> set ids \<Longrightarrow> x < next_id ids"
proof (cases ids)
  case Nil
  then show "x \<in> set ids \<Longrightarrow> x < next_id ids" by simp
next
  case (Cons i rest)
  assume "x \<in> set ids"
  with Cons have "x = i \<or> x \<in> set rest" by simp
  then have "x \<le> fold max rest i"
    using fold_max_start[of i rest] fold_max_member[of x rest i] by blast
  then show "x < next_id ids" using Cons by (simp add: next_id_def)
qed

lemma find_snoc:
  "find P (xs @ [x]) = (case find P xs of Some y \<Rightarrow> Some y | None \<Rightarrow> if P x then Some x else None)"
  by (induction xs) auto

lemma find_snoc_found: "find P xs = Some y \<Longrightarrow> find P (xs @ [x]) = Some y"
  by (simp add: find_snoc)

lemma query_get_user_found:
  "query_get_user env us key = Inr (Some u) \<Longrightarrow>
     bind_integer env key = Inr (Some (uid u)) \<and> find (\<lambda>v. uid v = uid u) us = Some u"
  unfolding query_get_user_def
  by (auto simp: find_Some_iff split: sum.splits option.splits)

lemma within_1km_False:
  "within_1km env ts lat lon = Inr False \<longleftrightarrow>
     (\<forall>t\<in>set ts. \<exists>d. float_haversine env (latitude t) (longitude t) lat lon = Inr d \<and> 1 \<le> d)"
  by (induction ts) (auto split: sum.splits)

lemma within_1km_True:
  "(\<exists>t\<in>set ts. \<exists>d. float_haversine env (latitude t) (longitude t) lat lon = Inr d \<and> d < 1)
   \<Longrightarrow> (\<forall>t\<in>set ts. \<exists>d. float_haversine env (latitude t) (longitude t) lat lon = Inr d)
   \<Longrightarrow> within_1km env ts lat lon = Inr True"
  by (induction ts) (auto split: sum.splits)

lemma separated_snoc:
  assumes "separated env ts" and "within_1km env ts lat lon = Inr False"
  shows "separated env (ts @ [\<lparr>tid = n, latitude = lat, longitude = lon, user_id = k\<rparr>])"
  unfolding separated_def
proof (intro allI impI)
  fix j i
  assume j: "j < length (ts @ [\<lparr>tid = n, latitude = lat, longitude = lon, user_id = k\<rparr>])"
    and i: "i < j"
  let ?ts = "ts @ [\<lparr>tid = n, latitude = lat, longitude = lon, user_id = k\<rparr>]"
  show "\<exists>d. float_haversine env (latitude (?ts ! i)) (longitude (?ts ! i))
               (latitude (?ts ! j)) (longitude (?ts ! j)) = Inr d \<and> 1 \<le> d"
  proof (cases "j < length ts")
    case True
    with i assms(1) show ?thesis unfolding separated_def by (simp add: nth_append)
  next
    case False
    with j have jl: "j = length ts" by simp
    with i have "ts ! i \<in> set ts" by simp
    with assms(2) have "\<exists>d. float_haversine env (latitude (ts ! i)) (longitude (ts ! i)) lat lon
                          = Inr d \<and> 1 \<le> d"
      unfolding within_1km_False by blast
    with jl i show ?thesis by (simp add: nth_append)
  qed
qed

subsection \<open>What a request does to the store\<close>

lemma place_tower_unchanged_or_added:
  assumes "place_tower env s d lat lon = (out, s')"
  shows "(s' = s \<and> (\<forall>b. out \<noteq> Response b 201))
     \<or> (\<exists>owner u t.
           py_getitem d ''user_id'' = Inr owner
         \<and> query_get_user env (users s) owner = Inr (Some u)
         \<and> within_1km env (towers s) lat lon = Inr False
         \<and> t = \<lparr>tid = next_id (map tid (towers s)), latitude = lat,
                 longitude = lon, user_id = uid u\<rparr>
         \<and> s' = s\<lparr>towers := towers s @ [t]\<rparr>
         \<and> out = Response (JObj [(''id'', JInt (tid t)),
                                  (''latitude'', JFloat lat),
                                  (''longitude'', JFloat lon),
                                  (''user_id'', JInt (uid u)),
                                  (''user'', user_to_dict u)]) 201)"
proof (cases "py_getitem d ''user_id''")
  case (Inl e)
  with assms show ?thesis by (auto simp: place_tower_def)
next
  case (Inr owner)
  note o = this
  show ?thesis
  proof (cases "query_get_user env (users s) owner")
    case (Inl e)
    with assms o show ?thesis by (auto simp: place_tower_def)
  next
    case (Inr found)
    note q = this
    show ?thesis
    proof (cases found)
      case None
      with assms o q show ?thesis by (auto simp: place_tower_def)
    next
      case (Some u)
      note u = this
      from q u have f: "find (\<lambda>v. uid v = uid u) (users s) = Some u"
        by (simp add: query_get_user_found)
      show ?thesis
      proof (cases "within_1km env (towers s) lat lon")
        case (Inl e)
        with assms o q u show ?thesis by (auto simp: place_tower_def)
      next
        case (Inr b)
        note w = this
        show ?thesis
        proof (cases b)
          case True
          with assms o q u w show ?thesis by (auto simp: place_tower_def)
        next
          case False
          define t where "t = \<lparr>tid = next_id (map tid (towers s)), latitude = lat,
                   longitude = lon, user_id = uid u\<rparr>"
          have a: "add_tower s lat lon (uid u) = (t, s\<lparr>towers := towers s @ [t]\<rparr>)"
            by (simp add: add_tower_def t_def Let_def)
          have b: "tower_to_dict (s\<lparr>towers := towers s @ [t]\<rparr>) t
                   = Inr (JObj [(''id'', JInt (tid t)),
                                  (''latitude'', JFloat lat),
                                  (''longitude'', JFloat lon),
                                  (''user_id'', JInt (uid u)),
                                  (''user'', user_to_dict u)])"
            using f by (simp add: tower_to_dict_def t_def)
          from assms o q u w False a b
          have r: "s' = s\<lparr>towers := towers s @ [t]\<rparr>"
              "out = Response (JObj [(''id'', JInt (tid t)),
                                  (''latitude'', JFloat lat),
                                  (''longitude'', JFloat lon),
                                  (''user_id'', JInt (uid u)),
                                  (''user'', user_to_dict u)]) 201"
            by (simp_all add: place_tower_def)
          have "py_getitem d ''user_id'' = Inr owner
             \<and> query_get_user env (users s) owner = Inr (Some u)
             \<and> within_1km env (towers s) lat lon = Inr False
             \<and> t = \<lparr>tid = next_id (map tid (towers s)), latitude = lat,
                     longitude = lon, user_id = uid u\<rparr>
             \<and> s' = s\<lparr>towers := towers s @ [t]\<rparr>
             \<and> out = Response (JObj [(''id'', JInt (tid t)),
                                  (''latitude'', JFloat lat),
                                  (''longitude'', JFloat lon),
                                  (''user_id'', JInt (uid u)),
                                  (''user'', user_to_dict u)]) 201"
            using o q u w False r t_def by simp
          then show ?thesis by blast
        qed
      qed
    qed
  qed
qed

lemma create_tower_unchanged_or_added:
  assumes "create_tower env s data = (out, s')"
  shows "(s' = s \<and> (\<forall>b. out \<noteq> Response b 201))
     \<or> (\<exists>d lat lon owner u t.
           data = Some d
         \<and> read_coordinates env d = Inr (lat, lon)
         \<and> py_getitem d ''user_id'' = Inr owner
         \<and> query_get_user env (users s) owner = Inr (Some u)
         \<and> within_1km env (towers s) lat lon = Inr False
         \<and> t = \<lparr>tid = next_id (map tid (towers s)), latitude = lat,
                 longitude = lon, user_id = uid u\<rparr>
         \<and> s' = s\<lparr>towers := towers s @ [t]\<rparr>
         \<and> out = Response (JObj [(''id'', JInt (tid t)),
                                  (''latitude'', JFloat lat),
                                  (''longitude'', JFloat lon),
                                  (''user_id'', JInt (uid u)),
                                  (''user'', user_to_dict u)]) 201)"
proof (cases "\<exists>d lat lon. data = Some d \<and> read_coordinates env d = Inr (lat, lon)
                \<and> create_tower env s data = place_tower env s d lat lon")
  case True
  then obtain d lat lon where d: "data = Some d" "read_coordinates env d = Inr (lat, lon)"
      and "create_tower env s data = place_tower env s d lat lon" by blast
  with assms have "place_tower env s d lat lon = (out, s')" by simp
  from place_tower_unchanged_or_added[OF this] d show ?thesis by blast
next
  case False
  with assms have "s' = s \<and> (\<forall>b. out \<noteq> Response b 201)"
    by (auto simp: create_tower_def split: sum.splits bool.splits option.splits if_splits prod.splits)
  then show ?thesis by blast
qed

lemma add_user_result:
  assumes "add_user env s fname lname mail = Inr (u, s')"
  shows "\<exists>ftext ltext mtext.
           bind_text env fname = Inr (Some ftext)
         \<and> bind_text env lname = Inr (Some ltext)
         \<and> bind_text env mail = Inr (Some mtext)
         \<and> mtext \<notin> set (map email (users s))
         \<and> u = \<lparr>uid = next_id (map uid (users s)), first_name = ftext,
                 last_name = ltext, email = mtext\<rparr>
         \<and> s' = s\<lparr>users := users s @ [u]\<rparr>"
  using assms
  by (auto simp: add_user_def Let_def split: sum.splits option.splits if_splits)

lemma register_user_unchanged_or_added:
  assumes "register_user env s d = (out, s')"
  shows "(s' = s \<and> (\<forall>b. out \<noteq> Response b 201))
     \<or> (\<exists>fname lname mail ftext ltext mtext u.
           py_getitem d ''first_name'' = Inr fname
         \<and> py_getitem d ''last_name'' = Inr lname
         \<and> py_getitem d ''email'' = Inr mail
         \<and> bind_text env fname = Inr (Some ftext)
         \<and> bind_text env lname = Inr (Some ltext)
         \<and> bind_text env mail = Inr (Some mtext)
         \<and> mtext \<notin> set (map email (users s))
         \<and> u = \<lparr>uid = next_id (map uid (users s)), first_name = ftext,
                 last_name = ltext, email = mtext\<rparr>
         \<and> s' = s\<lparr>users := users s @ [u]\<rparr>
         \<and> out = Response (user_to_dict u) 201)"
proof (cases "\<exists>fname lname mail u. py_getitem d ''first_name'' = Inr fname
         \<and> py_getitem d ''last_name'' = Inr lname
         \<and> py_getitem d ''email'' = Inr mail
         \<and> add_user env s fname lname mail = Inr (u, s')
         \<and> out = Response (user_to_dict u) 201")
  case True
  then obtain fname lname mail u where
    g: "py_getitem d ''first_name'' = Inr fname" "py_getitem d ''last_name'' = Inr lname"
       "py_getitem d ''email'' = Inr mail"
    and a: "add_user env s fname lname mail = Inr (u, s')"
    and o: "out = Response (user_to_dict u) 201" by blast
  from add_user_result[OF a] g o show ?thesis by blast
next
  case False
  with assms have "s' = s \<and> (\<forall>b. out \<noteq> Response b 201)"
    by (auto simp: register_user_def split: sum.splits option.splits prod.splits)
  then show ?thesis by blast
qed

lemma create_user_unchanged_or_added:
  assumes "create_user env s data = (out, s')"
  shows "(s' = s \<and> (\<forall>b. out \<noteq> Response b 201))
     \<or> (\<exists>d fname lname mail ftext ltext mtext u.
           data = Some d
         \<and> py_getitem d ''first_name'' = Inr fname
         \<and> py_getitem d ''last_name'' = Inr lname
         \<and> py_getitem d ''email'' = Inr mail
         \<and> bind_text env fname = Inr (Some ftext)
         \<and> bind_text env lname = Inr (Some ltext)
         \<and> bind_text env mail = Inr (Some mtext)
         \<and> mtext \<notin> set (map email (users s))
         \<and> u = \<lparr>uid = next_id (map uid (users s)), first_name = ftext,
                 last_name = ltext, email = mtext\<rparr>
         \<and> s' = s\<lparr>users := users s @ [u]\<rparr>
         \<and> out = Response (user_to_dict u) 201)"
proof (cases "\<exists>d. data = Some d \<and> create_user env s data = register_user env s d")
  case True
  then obtain d where d: "data = Some d" "create_user env s data = register_user env s d" by blast
  with assms have "register_user env s d = (out, s')" by simp
  from register_user_unchanged_or_added[OF this] d show ?thesis by blast
next
  case False
  with assms have "s' = s \<and> (\<forall>b. out \<noteq> Response b 201)"
    by (auto simp: create_user_def split: sum.splits bool.splits option.splits)
  then show ?thesis by blast
qed

lemma sorted_ids_snoc:
  "sorted_wrt (<) ids \<Longrightarrow> sorted_wrt (<) (ids @ [next_id ids])"
  by (simp add: sorted_wrt_append next_id_greater)

lemma consistent_create_tower:
  assumes c: "consistent env s"
  shows "consistent env (snd (create_tower env s data))"
proof -
  obtain out s' where r: "create_tower env s data = (out, s')"
    by (cases "create_tower env s data")
  from create_tower_unchanged_or_added[OF r] show ?thesis
  proof
    assume "s' = s \<and> (\<forall>b. out \<noteq> Response b 201)"
    with c r show ?thesis by simp
  next
    assume "\<exists>d lat lon owner u t.
           data = Some d
         \<and> read_coordinates env d = Inr (lat, lon)
         \<and> py_getitem d ''user_id'' = Inr owner
         \<and> query_get_user env (users s) owner = Inr (Some u)
         \<and> within_1km env (towers s) lat lon = Inr False
         \<and> t = \<lparr>tid = next_id (map tid (towers s)), latitude = lat,
                 longitude = lon, user_id = uid u\<rparr>
         \<and> s' = s\<lparr>towers := towers s @ [t]\<rparr>
         \<and> out = Response (JObj [(''id'', JInt (tid t)),
                                  (''latitude'', JFloat lat),
                                  (''longitude'', JFloat lon),
                                  (''user_id'', JInt (uid u)),
                                  (''user'', user_to_dict u)]) 201"
    then obtain lat lon owner u t where
      u: "query_get_user env (users s) owner = Inr (Some u)" and
      w: "within_1km env (towers s) lat lon = Inr False" and
      t: "t = \<lparr>tid = next_id (map tid (towers s)), latitude = lat,
                 longitude = lon, user_id = uid u\<rparr>" and
      s': "s' = s\<lparr>towers := towers s @ [t]\<rparr>" by blast
    from u have f: "find (\<lambda>v. uid v = uid u) (users s) = Some u"
      by (simp add: query_get_user_found)
    have 1: "\<forall>x\<in>set (towers s'). find (\<lambda>v. uid v = user_id x) (users s') \<noteq> None"
      using c f unfolding consistent_def s' t by auto
    have 2: "sorted_wrt (<) (map uid (users s'))"
      using c unfolding consistent_def s' by simp
    have 3: "sorted_wrt (<) (map tid (towers s'))"
      using c sorted_ids_snoc[of "map tid (towers s)"] unfolding consistent_def s' t by simp
    have 4: "separated env (towers s')"
      using c w separated_snoc unfolding consistent_def s' t by simp
    from 1 2 3 4 r show ?thesis by (simp add: consistent_def)
  qed
qed

lemma consistent_create_user:
  assumes c: "consistent env s"
  shows "consistent env (snd (create_user env s data))"
proof -
  obtain out s' where r: "create_user env s data = (out, s')"
    by (cases "create_user env s data")
  from create_user_unchanged_or_added[OF r] show ?thesis
  proof
    assume "s' = s \<and> (\<forall>b. out \<noteq> Response b 201)"
    with c r show ?thesis by simp
  next
    assume "\<exists>d fname lname mail ftext ltext mtext u.
           data = Some d
         \<and> py_getitem d ''first_name'' = Inr fname
         \<and> py_getitem d ''last_name'' = Inr lname
         \<and> py_getitem d ''email'' = Inr mail
         \<and> bind_text env fname = Inr (Some ftext)
         \<and> bind_text env lname = Inr (Some ltext)
         \<and> bind_text env mail = Inr (Some mtext)
         \<and> mtext \<notin> set (map email (users s))
         \<and> u = \<lparr>uid = next_id (map uid (users s)), first_name = ftext,
                 last_name = ltext, email = mtext\<rparr>
         \<and> s' = s\<lparr>users := users s @ [u]\<rparr>
         \<and> out = Response (user_to_dict u) 201"
    then obtain ftext ltext mtext u where
      u: "u = \<lparr>uid = next_id (map uid (users s)), first_name = ftext,
                 last_name = ltext, email = mtext\<rparr>" and
      s': "s' = s\<lparr>users := users s @ [u]\<rparr>" by blast
    have 1: "\<forall>x\<in>set (towers s'). find (\<lambda>v. uid v = user_id x) (users s') \<noteq> None"
    proof
      fix x assume "x \<in> set (towers s')"
      then have "x \<in> set (towers s)" by (simp add: s')
      with c obtain y where "find (\<lambda>v. uid v = user_id x) (users s) = Some y"
        by (auto simp: consistent_def)
      then have "find (\<lambda>v. uid v = user_id x) (users s @ [u]) = Some y"
        by (rule find_snoc_found)
      then show "find (\<lambda>v. uid v = user_id x) (users s') \<noteq> None" by (simp add: s')
    qed
    have 2: "sorted_wrt (<) (map uid (users s'))"
      using c sorted_ids_snoc[of "map uid (users s)"] unfolding consistent_def s' u by simp
    have 3: "sorted_wrt (<) (map tid (towers s'))"
      using c unfolding consistent_def s' by simp
    have 4: "separated env (towers s')"
      using c unfolding consistent_def s' by simp
    from 1 2 3 4 r show ?thesis by (simp add: consistent_def)
  qed
qed

lemma consistent_empty: "consistent env empty_store"
  by (simp add: consistent_def empty_store_def separated_def)

lemma consistent_handle: "consistent env s \<Longrightarrow> consistent env (snd (handle env s r))"
  by (cases r) (simp_all add: consistent_create_tower consistent_create_user)

lemma consistent_foldl:
  "consistent env s \<Longrightarrow> consistent env (foldl (\<lambda>s r. snd (handle env s r)) s reqs)"
  by (induction reqs arbitrary: s) (simp_all add: consistent_handle)

lemma consistent_run: "consistent env (run env reqs)"
  unfolding run_def by (rule consistent_foldl) (rule consistent_empty)

subsection \<open>Towers: separation and creation\<close>








subsection \<open>The scenario, step by step\<close>

lemma equator_degree_not_near: "\<not> 6371 * pi < (180::real)"
  using pi_lower by simp




lemma scenario_step1:
  "create_user exact_platform empty_store (Some user_body)
     = (Response (user_to_dict scenario_user) 201, \<lparr>users = [scenario_user], towers = []\<rparr>)"
  by (simp add: create_user_def fields_missing_def user_body_def register_user_def
        query_email_def bind_text_def add_user_def empty_store_def next_id_def
        scenario_user_def Let_def)

lemma scenario_step2:
  "create_tower exact_platform \<lparr>users = [scenario_user], towers = []\<rparr> (Some (tower_body 0 0 1))
     = (Response (JObj [(''id'', JInt 1), (''latitude'', JFloat 0), (''longitude'', JFloat 0),
                        (''user_id'', JInt 1), (''user'', user_to_dict scenario_user)]) 201,
        one_tower_store)"
  by (simp add: create_tower_def fields_missing_def tower_body_def read_coordinates_def
        place_tower_def query_get_user_def bind_integer_def sqlite_integer_def
        scenario_user_def add_tower_def next_id_def
        tower_to_dict_def Let_def one_tower_store_def)

lemma scenario_step3:
  "create_tower exact_platform one_tower_store (Some (tower_body 0 0 1))
     = (Response (error_body ''Tower already exists within 1km'') 400, one_tower_store)"
  by (simp add: create_tower_def fields_missing_def tower_body_def read_coordinates_def
        place_tower_def query_get_user_def bind_integer_def sqlite_integer_def
        scenario_user_def one_tower_store_def exact_platform_def
        haversine_value haversine_reference_same)

lemma scenario_step4:
  "create_tower exact_platform one_tower_store (Some (tower_body 0 1 1))
     = (Response (JObj [(''id'', JInt 2), (''latitude'', JFloat 0), (''longitude'', JFloat 1),
                        (''user_id'', JInt 1), (''user'', user_to_dict scenario_user)]) 201,
        scenario_store)"
  by (simp add: create_tower_def fields_missing_def tower_body_def read_coordinates_def
        place_tower_def query_get_user_def bind_integer_def sqlite_integer_def
        scenario_user_def add_tower_def next_id_def
        tower_to_dict_def Let_def scenario_store_def one_tower_store_def exact_platform_def
        haversine_value haversine_reference_equator_degree equator_degree_not_near)

lemma run_scenario: "run exact_platform scenario = scenario_store"
  by (simp add: run_def scenario_def scenario_step1 scenario_step2 scenario_step3 scenario_step4)

lemma scenario_step5:
  "create_tower exact_platform scenario_store (Some (tower_body 0 0 1))
     = (Response (error_body ''Tower already exists within 1km'') 400, scenario_store)"
  by (simp add: create_tower_def fields_missing_def tower_body_def read_coordinates_def
        place_tower_def query_get_user_def bind_integer_def sqlite_integer_def
        scenario_user_def scenario_store_def exact_platform_def
        haversine_value haversine_reference_same)

lemma scenario_second_user:
  "create_user exact_platform scenario_store
      (Some (JObj [(''first_name'', JStr ''C''), (''last_name'', JStr ''D''),
                   (''email'', JStr ''c@d.com'')]))
     = (Response (user_to_dict \<lparr>uid = 2, first_name = ''C'', last_name = ''D'',
                                 email = ''c@d.com''\<rparr>) 201,
        scenario_store\<lparr>users := [scenario_user,
                          \<lparr>uid = 2, first_name = ''C'', last_name = ''D'',
                             email = ''c@d.com''\<rparr>]\<rparr>)"
  by (simp add: create_user_def fields_missing_def register_user_def query_email_def
        bind_text_def add_user_def scenario_store_def next_id_def scenario_user_def Let_def)

lemma scenario_same_email:
  "create_user exact_platform scenario_store (Some user_body)
     = (Response (error_body ''Email already exists'') 400, scenario_store)"
  by (simp add: create_user_def fields_missing_def register_user_def user_body_def
        query_email_def bind_text_def scenario_store_def scenario_user_def)

subsection \<open>Reading the tables\<close>

lemma tower_to_dict_owner:
  assumes "find (\<lambda>u. uid u = user_id t) (users s) \<noteq> None"
  shows "\<exists>u\<in>set (users s). uid u = user_id t
           \<and> tower_to_dict s t
               = Inr (JObj [(''id'', JInt (tid t)),
                            (''latitude'', JFloat (latitude t)),
                            (''longitude'', JFloat (longitude t)),
                            (''user_id'', JInt (user_id t)),
                            (''user'', JObj [(''id'', JInt (uid u)),
                                             (''first_name'', JStr (first_name u)),
                                             (''last_name'', JStr (last_name u)),
                                             (''email'', JStr (email u))])])"
proof -
  from assms obtain u where u: "find (\<lambda>u. uid u = user_id t) (users s) = Some u" by auto
  then have "u \<in> set (users s)" "uid u = user_id t" by (auto simp: find_Some_iff)
  moreover from u have "tower_to_dict s t
               = Inr (JObj [(''id'', JInt (tid t)),
                            (''latitude'', JFloat (latitude t)),
                            (''longitude'', JFloat (longitude t)),
                            (''user_id'', JInt (user_id t)),
                            (''user'', JObj [(''id'', JInt (uid u)),
                                             (''first_name'', JStr (first_name u)),
                                             (''last_name'', JStr (last_name u)),
                                             (''email'', JStr (email u))])])"
    by (simp add: tower_to_dict_def user_to_dict_def)
  ultimately show ?thesis by blast
qed

lemma towers_to_dicts_all:
  assumes "\<forall>t\<in>set ts. find (\<lambda>u. uid u = user_id t) (users s) \<noteq> None"
  shows "\<exists>ds. towers_to_dicts s ts = Inr ds
              \<and> list_all2 (\<lambda>t d. tower_to_dict s t = Inr d) ts ds"
  using assms
proof (induction ts)
  case Nil
  then show ?case by simp
next
  case (Cons t ts)
  then obtain ds where ds: "towers_to_dicts s ts = Inr ds"
      "list_all2 (\<lambda>t d. tower_to_dict s t = Inr d) ts ds" by auto
  from Cons.prems obtain u where "find (\<lambda>u. uid u = user_id t) (users s) = Some u" by auto
  then obtain d where d: "tower_to_dict s t = Inr d" by (simp add: tower_to_dict_def)
  with ds have "towers_to_dicts s (t # ts) = Inr (d # ds)
      \<and> list_all2 (\<lambda>t d. tower_to_dict s t = Inr d) (t # ts) (d # ds)" by simp
  then show ?case by blast
qed

text \<open>
  For an identifier within the 64 bits of the column, and a store reached from the empty
  one: \<^verbatim>\<open>get_towers_by_user_id\<close> answers 200 with the dicts of exactly the towers of that
  owner, in the order of the table, and with the empty array when there is none.
\<close>

lemma get_towers_by_user_id_in_range:
  assumes "- (2 ^ 63) \<le> i" "i < 2 ^ 63"
  shows "(\<exists>ds. get_towers_by_user_id (run env reqs) i = Response (JArr ds) 200
        \<and> list_all2 (\<lambda>t d. tower_to_dict (run env reqs) t = Inr d)
             (filter (\<lambda>t. user_id t = i) (towers (run env reqs))) ds)
   \<and> ((\<forall>t\<in>set (towers (run env reqs)). user_id t \<noteq> i) \<longrightarrow>
        get_towers_by_user_id (run env reqs) i = Response (JArr []) 200)
   \<and> ((\<forall>u\<in>set (users (run env reqs)). uid u \<noteq> i) \<longrightarrow>
        get_towers_by_user_id (run env reqs) i = Response (JArr []) 200)"
proof -
  define s where "s = run env reqs"
  have r: "sqlite_integer i = Inr i" using assms by (simp add: sqlite_integer_def)
  have c: "consistent env s" unfolding s_def by (rule consistent_run)
  then have fk: "\<forall>t\<in>set (towers s). find (\<lambda>u. uid u = user_id t) (users s) \<noteq> None"
    by (simp add: consistent_def)
  then have "\<forall>t\<in>set (filter (\<lambda>t. user_id t = i) (towers s)).
               find (\<lambda>u. uid u = user_id t) (users s) \<noteq> None"
    by (metis filter_is_subset subsetD)
  from towers_to_dicts_all[OF this] obtain ds where
    ds: "towers_to_dicts s (filter (\<lambda>t. user_id t = i) (towers s)) = Inr ds"
        "list_all2 (\<lambda>t d. tower_to_dict s t = Inr d)
           (filter (\<lambda>t. user_id t = i) (towers s)) ds" by blast
  then have 1: "\<exists>ds. get_towers_by_user_id s i = Response (JArr ds) 200
        \<and> list_all2 (\<lambda>t d. tower_to_dict s t = Inr d)
             (filter (\<lambda>t. user_id t = i) (towers s)) ds"
    by (simp add: get_towers_by_user_id_def r)
  have e: "get_towers_by_user_id s i = Response (JArr []) 200"
    if "\<forall>t\<in>set (towers s). user_id t \<noteq> i"
  proof -
    from that have "filter (\<lambda>t. user_id t = i) (towers s) = []"
      by (simp add: filter_empty_conv)
    then show ?thesis by (simp add: get_towers_by_user_id_def r)
  qed
  have 3: "get_towers_by_user_id s i = Response (JArr []) 200"
    if n: "\<forall>u\<in>set (users s). uid u \<noteq> i"
  proof -
    have "\<forall>t\<in>set (towers s). user_id t \<noteq> i"
    proof
      fix t assume "t \<in> set (towers s)"
      with fk obtain u where "find (\<lambda>u. uid u = user_id t) (users s) = Some u" by auto
      then have "u \<in> set (users s)" "uid u = user_id t" by (auto simp: find_Some_iff)
      with n show "user_id t \<noteq> i" by auto
    qed
    then show ?thesis by (rule e)
  qed
  from 1 e 3 show ?thesis unfolding s_def by blast
qed

text \<open>
  Claim C6. The claim has \<^verbatim>\<open>get_towers_by_user_id\<close> answer 200 for every user id, with
  the empty array when no user has the id. The route \<^verbatim>\<open><int:user_id>\<close> accepts any
  sequence of digits, and an integer of \<open>2^63\<close> or more, which no user has, cannot be
  bound in \<^verbatim>\<open>filter_by(user_id=user_id)\<close>: the query of line 144 raises
  \<^verbatim>\<open>OverflowError\<close>, and the handler returns no response of its own.
\<close>

theorem get_towers_by_user_id_large_id:
  "get_towers_by_user_id scenario_store (2 ^ 63) = Uncaught OverflowError"
  by (simp add: get_towers_by_user_id_def sqlite_integer_def)

lemma find_unique:
  assumes "sorted_wrt (<) (map f xs)" and "x \<in> set xs"
  shows "find (\<lambda>y. f y = (f x :: int)) xs = Some x"
  using assms
proof (induction xs)
  case Nil
  then show ?case by simp
next
  case (Cons y ys)
  show ?case
  proof (cases "y = x")
    case True
    then show ?thesis by simp
  next
    case False
    with Cons.prems have x: "x \<in> set ys" by simp
    with Cons.prems have "f y < f x" by auto
    then have "f y \<noteq> f x" by simp
    with Cons x show ?thesis by simp
  qed
qed

text \<open>
  For an identifier within the 64 bits of the column, and a store reached from the empty
  one: \<^verbatim>\<open>get_tower\<close> and \<^verbatim>\<open>get_user\<close> answer 200 with the dict of the row that has the
  identifier, and 404 with an error body when no row has it.
\<close>

lemma get_by_id_in_range:
  assumes "- (2 ^ 63) \<le> i" "i < 2 ^ 63"
  shows "(\<forall>t\<in>set (towers (run env reqs)). tid t = i \<longrightarrow>
       (\<exists>u\<in>set (users (run env reqs)). uid u = user_id t
          \<and> get_tower (run env reqs) i
              = Response (JObj [(''id'', JInt (tid t)),
                            (''latitude'', JFloat (latitude t)),
                            (''longitude'', JFloat (longitude t)),
                            (''user_id'', JInt (user_id t)),
                            (''user'', JObj [(''id'', JInt (uid u)),
                                             (''first_name'', JStr (first_name u)),
                                             (''last_name'', JStr (last_name u)),
                                             (''email'', JStr (email u))])]) 200))
   \<and> ((\<forall>t\<in>set (towers (run env reqs)). tid t \<noteq> i) \<longrightarrow>
        get_tower (run env reqs) i = Response (error_body ''Tower not found'') 404)
   \<and> (\<forall>u\<in>set (users (run env reqs)). uid u = i \<longrightarrow>
        get_user (run env reqs) i
          = Response (JObj [(''id'', JInt (uid u)),
                            (''first_name'', JStr (first_name u)),
                            (''last_name'', JStr (last_name u)),
                            (''email'', JStr (email u))]) 200)
   \<and> ((\<forall>u\<in>set (users (run env reqs)). uid u \<noteq> i) \<longrightarrow>
        get_user (run env reqs) i = Response (error_body ''User not found'') 404)"
proof -
  define s where "s = run env reqs"
  have r: "sqlite_integer i = Inr i" using assms by (simp add: sqlite_integer_def)
  have c: "consistent env s" unfolding s_def by (rule consistent_run)
  have 1: "\<exists>u\<in>set (users s). uid u = user_id t
          \<and> get_tower s i
              = Response (JObj [(''id'', JInt (tid t)),
                            (''latitude'', JFloat (latitude t)),
                            (''longitude'', JFloat (longitude t)),
                            (''user_id'', JInt (user_id t)),
                            (''user'', JObj [(''id'', JInt (uid u)),
                                             (''first_name'', JStr (first_name u)),
                                             (''last_name'', JStr (last_name u)),
                                             (''email'', JStr (email u))])]) 200"
    if "t \<in> set (towers s)" "tid t = i" for t
  proof -
    from c that have "find (\<lambda>u. uid u = user_id t) (users s) \<noteq> None"
      by (auto simp: consistent_def)
    from tower_to_dict_owner[OF this] obtain u where
      u: "u \<in> set (users s)" "uid u = user_id t"
         "tower_to_dict s t
               = Inr (JObj [(''id'', JInt (tid t)),
                            (''latitude'', JFloat (latitude t)),
                            (''longitude'', JFloat (longitude t)),
                            (''user_id'', JInt (user_id t)),
                            (''user'', JObj [(''id'', JInt (uid u)),
                                             (''first_name'', JStr (first_name u)),
                                             (''last_name'', JStr (last_name u)),
                                             (''email'', JStr (email u))])])" by blast
    from c have "sorted_wrt (<) (map tid (towers s))" by (simp add: consistent_def)
    from find_unique[OF this that(1)] have "find (\<lambda>x. tid x = tid t) (towers s) = Some t" .
    with that(2) have "query_get_tower (towers s) i = Inr (Some t)"
      by (simp add: query_get_tower_def r)
    with u(3) have "get_tower s i
              = Response (JObj [(''id'', JInt (tid t)),
                            (''latitude'', JFloat (latitude t)),
                            (''longitude'', JFloat (longitude t)),
                            (''user_id'', JInt (user_id t)),
                            (''user'', JObj [(''id'', JInt (uid u)),
                                             (''first_name'', JStr (first_name u)),
                                             (''last_name'', JStr (last_name u)),
                                             (''email'', JStr (email u))])]) 200"
      by (simp add: get_tower_def)
    with u(1,2) show ?thesis by blast
  qed
  have 2: "get_tower s i = Response (error_body ''Tower not found'') 404"
    if "\<forall>t\<in>set (towers s). tid t \<noteq> i"
  proof -
    from that have "find (\<lambda>t. tid t = i) (towers s) = None"
      by (auto simp: find_None_iff)
    then show ?thesis by (simp add: get_tower_def query_get_tower_def r)
  qed
  have 3: "get_user s i = Response (JObj [(''id'', JInt (uid u)),
                            (''first_name'', JStr (first_name u)),
                            (''last_name'', JStr (last_name u)),
                            (''email'', JStr (email u))]) 200"
    if "u \<in> set (users s)" "uid u = i" for u
  proof -
    from c have "sorted_wrt (<) (map uid (users s))" by (simp add: consistent_def)
    from find_unique[OF this that(1)] have "find (\<lambda>x. uid x = uid u) (users s) = Some u" .
    with that(2) show ?thesis
      by (simp add: get_user_def query_get_user_id_def r user_to_dict_def)
  qed
  have 4: "get_user s i = Response (error_body ''User not found'') 404"
    if "\<forall>u\<in>set (users s). uid u \<noteq> i"
  proof -
    from that have "find (\<lambda>u. uid u = i) (users s) = None"
      by (auto simp: find_None_iff)
    then show ?thesis by (simp add: get_user_def query_get_user_id_def r)
  qed
  from 1 2 3 4 show ?thesis unfolding s_def by blast
qed

text \<open>
  Claim C7. The claim has \<^verbatim>\<open>get_tower\<close> and \<^verbatim>\<open>get_user\<close> answer 404 for every id that
  no row has. The routes \<^verbatim>\<open><int:tower_id>\<close> and \<^verbatim>\<open><int:user_id>\<close> accept any sequence of
  digits, and an integer of \<open>2^63\<close> or more, which no row has, cannot be bound in
  \<^verbatim>\<open>Tower.query.get\<close> (line 72) and \<^verbatim>\<open>User.query.get\<close> (line 136): both raise
  \<^verbatim>\<open>OverflowError\<close>, and the handlers return no response of their own.
\<close>

theorem get_by_id_large_id:
  "get_tower scenario_store (2 ^ 63) = Uncaught OverflowError
   \<and> get_user scenario_store (2 ^ 63) = Uncaught OverflowError"
  by (simp add: get_tower_def get_user_def query_get_tower_def query_get_user_id_def
        sqlite_integer_def)

subsection \<open>Identifiers and error responses\<close>

lemma handle_tables:
  "(users (snd (handle env s r)) = users s
      \<or> (\<exists>u. users (snd (handle env s r)) = users s @ [u]
              \<and> (\<forall>v\<in>set (users s). uid v < uid u)))
   \<and> (towers (snd (handle env s r)) = towers s
      \<or> (\<exists>t. towers (snd (handle env s r)) = towers s @ [t]
              \<and> (\<forall>v\<in>set (towers s). tid v < tid t)))"
proof (cases r)
  case (POST_towers data)
  obtain out s' where r': "create_tower env s data = (out, s')"
    by (cases "create_tower env s data")
  from create_tower_unchanged_or_added[OF r']
  have "users s' = users s \<and> (towers s' = towers s
      \<or> (\<exists>t. towers s' = towers s @ [t] \<and> (\<forall>v\<in>set (towers s). tid v < tid t)))"
  proof
    assume "s' = s \<and> (\<forall>b. out \<noteq> Response b 201)"
    then show ?thesis by simp
  next
    assume "\<exists>d lat lon owner u t.
           data = Some d
         \<and> read_coordinates env d = Inr (lat, lon)
         \<and> py_getitem d ''user_id'' = Inr owner
         \<and> query_get_user env (users s) owner = Inr (Some u)
         \<and> within_1km env (towers s) lat lon = Inr False
         \<and> t = \<lparr>tid = next_id (map tid (towers s)), latitude = lat,
                 longitude = lon, user_id = uid u\<rparr>
         \<and> s' = s\<lparr>towers := towers s @ [t]\<rparr>
         \<and> out = Response (JObj [(''id'', JInt (tid t)),
                                  (''latitude'', JFloat lat),
                                  (''longitude'', JFloat lon),
                                  (''user_id'', JInt (uid u)),
                                  (''user'', user_to_dict u)]) 201"
    then obtain t lat lon k where
      "t = \<lparr>tid = next_id (map tid (towers s)), latitude = lat,
                 longitude = lon, user_id = k\<rparr>"
      and s': "s' = s\<lparr>towers := towers s @ [t]\<rparr>" by blast
    then have t: "tid t = next_id (map tid (towers s))" by simp
    have "\<forall>v\<in>set (towers s). tid v < tid t"
      unfolding t using next_id_greater[of _ "map tid (towers s)"] by simp
    with s' show ?thesis by simp
  qed
  with POST_towers r' show ?thesis by simp
next
  case (POST_users data)
  obtain out s' where r': "create_user env s data = (out, s')"
    by (cases "create_user env s data")
  from create_user_unchanged_or_added[OF r']
  have "towers s' = towers s \<and> (users s' = users s
      \<or> (\<exists>u. users s' = users s @ [u] \<and> (\<forall>v\<in>set (users s). uid v < uid u)))"
  proof
    assume "s' = s \<and> (\<forall>b. out \<noteq> Response b 201)"
    then show ?thesis by simp
  next
    assume "\<exists>d fname lname mail ftext ltext mtext u.
           data = Some d
         \<and> py_getitem d ''first_name'' = Inr fname
         \<and> py_getitem d ''last_name'' = Inr lname
         \<and> py_getitem d ''email'' = Inr mail
         \<and> bind_text env fname = Inr (Some ftext)
         \<and> bind_text env lname = Inr (Some ltext)
         \<and> bind_text env mail = Inr (Some mtext)
         \<and> mtext \<notin> set (map email (users s))
         \<and> u = \<lparr>uid = next_id (map uid (users s)), first_name = ftext,
                 last_name = ltext, email = mtext\<rparr>
         \<and> s' = s\<lparr>users := users s @ [u]\<rparr>
         \<and> out = Response (user_to_dict u) 201"
    then obtain u fname lname mail where
      "u = \<lparr>uid = next_id (map uid (users s)), first_name = fname,
                 last_name = lname, email = mail\<rparr>"
      and s': "s' = s\<lparr>users := users s @ [u]\<rparr>" by blast
    then have u: "uid u = next_id (map uid (users s))" by simp
    have "\<forall>v\<in>set (users s). uid v < uid u"
      unfolding u using next_id_greater[of _ "map uid (users s)"] by simp
    with s' show ?thesis by simp
  qed
  with POST_users r' show ?thesis by simp
qed

text \<open>
  Claim C9. In every store reached from the empty store, no two users share an identifier
  and no two towers do, the identifiers grow along each table in the order of creation,
  and the next request leaves each table as it is or appends one row whose identifier is
  greater than every identifier of the table.
\<close>

theorem identifiers_unique_and_increasing:
  "distinct (map uid (users (run env reqs)))
   \<and> distinct (map tid (towers (run env reqs)))
   \<and> sorted_wrt (<) (map uid (users (run env reqs)))
   \<and> sorted_wrt (<) (map tid (towers (run env reqs)))
   \<and> (users (snd (handle env (run env reqs) r)) = users (run env reqs)
      \<or> (\<exists>u. users (snd (handle env (run env reqs) r))
                 = users (run env reqs) @ [u]
              \<and> (\<forall>v\<in>set (users (run env reqs)). uid v < uid u)))
   \<and> (towers (snd (handle env (run env reqs) r)) = towers (run env reqs)
      \<or> (\<exists>t. towers (snd (handle env (run env reqs) r))
                 = towers (run env reqs) @ [t]
              \<and> (\<forall>v\<in>set (towers (run env reqs)). tid v < tid t)))"
proof -
  have c: "consistent env (run env reqs)" by (rule consistent_run)
  then have s: "sorted_wrt (<) (map uid (users (run env reqs)))"
      "sorted_wrt (<) (map tid (towers (run env reqs)))"
    by (simp_all add: consistent_def)
  then have d: "distinct (map uid (users (run env reqs)))"
      "distinct (map tid (towers (run env reqs)))"
    by (simp_all add: strict_sorted_iff)
  from s d handle_tables[of env "run env reqs" r] show ?thesis by blast
qed

text \<open>
  Claim C10. When \<^verbatim>\<open>create_tower\<close> or \<^verbatim>\<open>create_user\<close> answers with status 400 or 404, the
  store after the request is the store before it.
\<close>

theorem error_response_keeps_store:
  "(fst (create_tower env s data) = Response body code \<and> (code = 400 \<or> code = 404)
      \<longrightarrow> snd (create_tower env s data) = s)
   \<and> (fst (create_user env s data) = Response body code \<and> (code = 400 \<or> code = 404)
      \<longrightarrow> snd (create_user env s data) = s)"
proof -
  have 1: "snd (create_tower env s data) = s"
    if "fst (create_tower env s data) = Response body code" "code = 400 \<or> code = 404"
  proof -
    obtain out s' where r: "create_tower env s data = (out, s')"
      by (cases "create_tower env s data")
    with that have "out = Response body code" "code \<noteq> 201" by auto
    with create_tower_unchanged_or_added[OF r] have "s' = s" by auto
    with r show ?thesis by simp
  qed
  have 2: "snd (create_user env s data) = s"
    if "fst (create_user env s data) = Response body code" "code = 400 \<or> code = 404"
  proof -
    obtain out s' where r: "create_user env s data = (out, s')"
      by (cases "create_user env s data")
    with that have "out = Response body code" "code \<noteq> 201" by auto
    with create_user_unchanged_or_added[OF r] have "s' = s" by auto
    with r show ?thesis by simp
  qed
  from 1 2 show ?thesis by blast
qed

subsection \<open>The properties on the scenario\<close>



text \<open>
  On the scenario: the identifiers are 1 for the user and 1, 2 for the towers, and a second
  user gets a greater one.
\<close>

theorem identifiers_unique_and_increasing_witness:
  "map uid (users (run exact_platform scenario)) = [1]
   \<and> map tid (towers (run exact_platform scenario)) = [1, 2]
   \<and> distinct (map tid (towers (run exact_platform scenario)))
   \<and> sorted_wrt (<) (map tid (towers (run exact_platform scenario)))
   \<and> (\<exists>u. users (snd (handle exact_platform (run exact_platform scenario)
                (POST_users (Some (JObj [(''first_name'', JStr ''C''),
                   (''last_name'', JStr ''D''), (''email'', JStr ''c@d.com'')])))))
            = users (run exact_platform scenario) @ [u]
          \<and> uid scenario_user < uid u)"
proof -
  note t = identifiers_unique_and_increasing[of exact_platform scenario
      "POST_users (Some (JObj [(''first_name'', JStr ''C''),
                   (''last_name'', JStr ''D''), (''email'', JStr ''c@d.com'')]))"]
  have a: "map uid (users (run exact_platform scenario)) = [1]"
       "map tid (towers (run exact_platform scenario)) = [1, 2]"
    by (simp_all add: run_scenario scenario_store_def scenario_user_def)
  from t have b: "distinct (map tid (towers (run exact_platform scenario)))"
       "sorted_wrt (<) (map tid (towers (run exact_platform scenario)))" by blast+
  have n: "users (snd (handle exact_platform (run exact_platform scenario)
                (POST_users (Some (JObj [(''first_name'', JStr ''C''),
                   (''last_name'', JStr ''D''), (''email'', JStr ''c@d.com'')])))))
            \<noteq> users (run exact_platform scenario)"
    by (simp add: run_scenario scenario_second_user) (simp add: scenario_store_def)
  with t obtain u where u: "users (snd (handle exact_platform (run exact_platform scenario)
                (POST_users (Some (JObj [(''first_name'', JStr ''C''),
                   (''last_name'', JStr ''D''), (''email'', JStr ''c@d.com'')])))))
            = users (run exact_platform scenario) @ [u]"
      "\<forall>v\<in>set (users (run exact_platform scenario)). uid v < uid u" by blast
  have "scenario_user \<in> set (users (run exact_platform scenario))"
    by (simp add: run_scenario scenario_store_def)
  with u have "\<exists>u. users (snd (handle exact_platform (run exact_platform scenario)
                (POST_users (Some (JObj [(''first_name'', JStr ''C''),
                   (''last_name'', JStr ''D''), (''email'', JStr ''c@d.com'')])))))
            = users (run exact_platform scenario) @ [u]
          \<and> uid scenario_user < uid u" by blast
  with a b show ?thesis by blast
qed

text \<open>
  On the scenario: a tower on an occupied point and a user with a stored email are refused
  with 400, and the store stays.
\<close>

theorem error_response_keeps_store_witness:
  "fst (create_tower exact_platform scenario_store (Some (tower_body 0 0 1)))
     = Response (error_body ''Tower already exists within 1km'') 400
   \<and> snd (create_tower exact_platform scenario_store (Some (tower_body 0 0 1))) = scenario_store
   \<and> fst (create_user exact_platform scenario_store (Some user_body))
     = Response (error_body ''Email already exists'') 400
   \<and> snd (create_user exact_platform scenario_store (Some user_body)) = scenario_store"
proof -
  note t = error_response_keeps_store[of exact_platform scenario_store "Some (tower_body 0 0 1)"
      "error_body ''Tower already exists within 1km''" 400]
  note u = error_response_keeps_store[of exact_platform scenario_store "Some user_body"
      "error_body ''Email already exists''" 400]
  have a: "fst (create_tower exact_platform scenario_store (Some (tower_body 0 0 1)))
     = Response (error_body ''Tower already exists within 1km'') 400"
    by (simp add: scenario_step5)
  with t have b: "snd (create_tower exact_platform scenario_store (Some (tower_body 0 0 1)))
                    = scenario_store" by blast
  have c: "fst (create_user exact_platform scenario_store (Some user_body))
     = Response (error_body ''Email already exists'') 400"
    by (simp add: scenario_same_email)
  with u have d: "snd (create_user exact_platform scenario_store (Some user_body))
                    = scenario_store" by blast
  from a b c d show ?thesis by blast
qed

text \<open>
  Beside the identifier that fails: the same handler on the store of the scenario, for the
  owner of both towers and for an identifier no user has.
\<close>

lemma get_towers_by_user_id_scenario:
  "(\<exists>ds. get_towers_by_user_id scenario_store 1 = Response (JArr ds) 200 \<and> length ds = 2)
   \<and> get_towers_by_user_id scenario_store 7 = Response (JArr []) 200"
  by (simp add: get_towers_by_user_id_def sqlite_integer_def scenario_store_def
        tower_to_dict_def scenario_user_def)

lemma get_by_id_scenario:
  "get_tower scenario_store 3 = Response (error_body ''Tower not found'') 404
   \<and> get_user scenario_store 1 = Response (user_to_dict scenario_user) 200
   \<and> get_user scenario_store 2 = Response (error_body ''User not found'') 404"
  by (simp add: get_tower_def get_user_def query_get_tower_def query_get_user_id_def
        sqlite_integer_def scenario_store_def scenario_user_def)

subsection \<open>The checks of the two POST handlers, in order\<close>

lemma create_tower_no_body:
  "create_tower env s None
     = (Response (error_body ''Missing latitude, longitude, or user_id'') 400, s)"
  by (simp add: create_tower_def fields_missing_def)

lemma create_tower_missing_field:
  assumes "map_of kvs ''latitude'' = None \<or> map_of kvs ''longitude'' = None
           \<or> map_of kvs ''user_id'' = None"
  shows "create_tower env s (Some (JObj kvs))
     = (Response (error_body ''Missing latitude, longitude, or user_id'') 400, s)"
  using assms by (auto simp: create_tower_def fields_missing_def)

lemma create_tower_object_fields:
  assumes "map_of kvs ''latitude'' = Some vlat" "map_of kvs ''longitude'' = Some vlon"
    and "map_of kvs ''user_id'' = Some owner"
  shows "fields_missing (Some (JObj kvs)) [''latitude'', ''longitude'', ''user_id''] = Inr False"
  using assms by (auto simp: fields_missing_def)

lemma create_tower_not_a_number:
  assumes "map_of kvs ''latitude'' = Some vlat" "map_of kvs ''longitude'' = Some vlon"
    and "map_of kvs ''user_id'' = Some owner"
    and "read_coordinates env (JObj kvs) = Inl e" "e = ValueError \<or> e = TypeError"
  shows "create_tower env s (Some (JObj kvs))
     = (Response (error_body ''Latitude and longitude must be numbers'') 400, s)"
  using create_tower_object_fields[OF assms(1-3)] assms(4,5)
  by (auto simp: create_tower_def)

lemma create_tower_int_too_large:
  "create_tower env s
      (Some (JObj [(''latitude'', JInt (2 ^ 1024)), (''longitude'', JInt 0),
                   (''user_id'', JInt 1)]))
     = (Uncaught OverflowError, s)"
  by (simp add: create_tower_def fields_missing_def read_coordinates_def)

lemma create_tower_out_of_range:
  assumes "map_of kvs ''latitude'' = Some vlat" "map_of kvs ''longitude'' = Some vlon"
    and "map_of kvs ''user_id'' = Some owner"
    and "py_float env vlat = Inr lat" "py_float env vlon = Inr lon"
    and "lat < - 90 \<or> 90 < lat \<or> lon < - 180 \<or> 180 < lon"
  shows "create_tower env s (Some (JObj kvs))
     = (Response (error_body ''Invalid GPS coordinates'') 400, s)"
proof -
  have "read_coordinates env (JObj kvs) = Inr (lat, lon)"
    using assms by (simp add: read_coordinates_def)
  then show ?thesis
    using create_tower_object_fields[OF assms(1-3)] assms(6)
    by (auto simp: create_tower_def)
qed

lemma create_tower_unknown_user:
  assumes "map_of kvs ''latitude'' = Some vlat" "map_of kvs ''longitude'' = Some vlon"
    and "map_of kvs ''user_id'' = Some owner"
    and "py_float env vlat = Inr lat" "py_float env vlon = Inr lon"
    and "- 90 \<le> lat" "lat \<le> 90" "- 180 \<le> lon" "lon \<le> 180"
    and "query_get_user env (users s) owner = Inr None"
  shows "create_tower env s (Some (JObj kvs))
     = (Response (error_body ''User not found'') 404, s)"
proof -
  have "read_coordinates env (JObj kvs) = Inr (lat, lon)"
    using assms by (simp add: read_coordinates_def)
  then show ?thesis
    using create_tower_object_fields[OF assms(1-3)] assms
    by (simp add: create_tower_def place_tower_def)
qed

lemma create_tower_too_close:
  assumes "map_of kvs ''latitude'' = Some vlat" "map_of kvs ''longitude'' = Some vlon"
    and "map_of kvs ''user_id'' = Some owner"
    and "py_float env vlat = Inr lat" "py_float env vlon = Inr lon"
    and "- 90 \<le> lat" "lat \<le> 90" "- 180 \<le> lon" "lon \<le> 180"
    and "query_get_user env (users s) owner = Inr (Some u)"
    and "\<exists>t\<in>set (towers s). \<exists>d.
           float_haversine env (latitude t) (longitude t) lat lon = Inr d \<and> d < 1"
    and "\<forall>t\<in>set (towers s). \<exists>d.
           float_haversine env (latitude t) (longitude t) lat lon = Inr d"
  shows "create_tower env s (Some (JObj kvs))
     = (Response (error_body ''Tower already exists within 1km'') 400, s)"
proof -
  have "read_coordinates env (JObj kvs) = Inr (lat, lon)"
    using assms by (simp add: read_coordinates_def)
  moreover have "within_1km env (towers s) lat lon = Inr True"
    using assms(11,12) by (rule within_1km_True)
  ultimately show ?thesis
    using create_tower_object_fields[OF assms(1-3)] assms(1-10)
    by (simp add: create_tower_def place_tower_def)
qed

lemma create_tower_list_body:
  "create_tower env s (Some (JArr [JStr ''latitude'', JStr ''longitude'', JStr ''user_id'']))
     = (Response (error_body ''Latitude and longitude must be numbers'') 400, s)"
  by (simp add: create_tower_def fields_missing_def read_coordinates_def)

text \<open>
  Claim C3. The claim has every request to \<^verbatim>\<open>create_tower\<close> whose body lacks the three
  fields end in 400. A body that is a JSON number other than 0 (here 5) has none of the
  fields and is not falsy, so line 81 evaluates \<^verbatim>\<open>'latitude' not in data\<close> on an
  \<^verbatim>\<open>int\<close>, which raises \<^verbatim>\<open>TypeError\<close> outside the \<^verbatim>\<open>try\<close>: the handler returns no
  response of its own.
\<close>

theorem create_tower_number_body:
  "create_tower env empty_store (Some (JInt 5)) = (Uncaught TypeError, empty_store)"
  by (simp add: create_tower_def fields_missing_def)

text \<open>The same evaluation, read off the theorem: no response, and the store as it was.\<close>

theorem create_tower_number_body_witness:
  "fst (create_tower exact_platform empty_store (Some (JInt 5))) = Uncaught TypeError
   \<and> snd (create_tower exact_platform empty_store (Some (JInt 5))) = empty_store"
  using create_tower_number_body[of exact_platform] by simp

lemma create_user_no_body:
  "create_user env s None
     = (Response (error_body ''Missing first_name, last_name, or email'') 400, s)"
  by (simp add: create_user_def fields_missing_def)

lemma create_user_missing_field:
  assumes "map_of kvs ''first_name'' = None \<or> map_of kvs ''last_name'' = None
           \<or> map_of kvs ''email'' = None"
  shows "create_user env s (Some (JObj kvs))
     = (Response (error_body ''Missing first_name, last_name, or email'') 400, s)"
  using assms by (auto simp: create_user_def fields_missing_def)

lemma create_user_object_fields:
  assumes "map_of kvs ''first_name'' = Some fname" "map_of kvs ''last_name'' = Some lname"
    and "map_of kvs ''email'' = Some mail"
  shows "fields_missing (Some (JObj kvs)) [''first_name'', ''last_name'', ''email''] = Inr False"
  using assms by (auto simp: fields_missing_def)

lemma create_user_same_email:
  assumes "map_of kvs ''first_name'' = Some fname" "map_of kvs ''last_name'' = Some lname"
    and "map_of kvs ''email'' = Some mail"
    and "bind_text env mail = Inr (Some mtext)"
    and "\<exists>u\<in>set (users s). email u = mtext"
  shows "create_user env s (Some (JObj kvs))
     = (Response (error_body ''Email already exists'') 400, s)"
proof -
  from assms(5) obtain u where "find (\<lambda>u. email u = mtext) (users s) = Some u"
    by (cases "find (\<lambda>u. email u = mtext) (users s)") (auto simp: find_None_iff)
  then show ?thesis
    using create_user_object_fields[OF assms(1-3)] assms(3,4)
    by (simp add: create_user_def register_user_def query_email_def)
qed

lemma create_user_succeeds:
  assumes "map_of kvs ''first_name'' = Some fname" "map_of kvs ''last_name'' = Some lname"
    and "map_of kvs ''email'' = Some mail"
    and "bind_text env fname = Inr (Some ftext)" "bind_text env lname = Inr (Some ltext)"
    and "bind_text env mail = Inr (Some mtext)"
    and "\<forall>u\<in>set (users s). email u \<noteq> mtext"
    and "sorted_wrt (<) (map uid (users s))"
    and "- (2 ^ 63) \<le> next_id (map uid (users s))" "next_id (map uid (users s)) < 2 ^ 63"
    and "u = \<lparr>uid = next_id (map uid (users s)), first_name = ftext,
               last_name = ltext, email = mtext\<rparr>"
    and "body = JObj [(''id'', JInt (uid u)), (''first_name'', JStr ftext),
                      (''last_name'', JStr ltext), (''email'', JStr mtext)]"
  shows "create_user env s (Some (JObj kvs))
           = (Response body 201, s\<lparr>users := users s @ [u]\<rparr>)
       \<and> get_user (s\<lparr>users := users s @ [u]\<rparr>) (uid u) = Response body 200"
proof -
  have n: "find (\<lambda>u. email u = mtext) (users s) = None"
    using assms(7) by (auto simp: find_None_iff)
  have m: "mtext \<notin> set (map email (users s))" using assms(7) by auto
  have b: "user_to_dict u = body" by (simp add: user_to_dict_def assms(11,12))
  have "add_user env s fname lname mail = Inr (u, s\<lparr>users := users s @ [u]\<rparr>)"
    using assms(4-6) m by (simp add: add_user_def Let_def assms(11))
  then have 1: "create_user env s (Some (JObj kvs))
           = (Response body 201, s\<lparr>users := users s @ [u]\<rparr>)"
    using create_user_object_fields[OF assms(1-3)] assms(1-6) n b
    by (simp add: create_user_def register_user_def query_email_def)
  have "sorted_wrt (<) (map uid (users s @ [u]))"
    using sorted_ids_snoc[OF assms(8)] by (simp add: assms(11))
  from find_unique[OF this, of u]
  have "find (\<lambda>y. uid y = uid u) (users s @ [u]) = Some u" by simp
  then have 2: "get_user (s\<lparr>users := users s @ [u]\<rparr>) (uid u) = Response body 200"
    using assms(9,10) b
    by (simp add: get_user_def query_get_user_id_def sqlite_integer_def assms(11))
  from 1 2 show ?thesis by blast
qed

text \<open>
  Claim C5. The claim has every request to \<^verbatim>\<open>create_user\<close> whose body lacks the three
  fields end in 400. A body that is a JSON number other than 0 (here 5) has none of the
  fields and is not falsy, so line 111 evaluates \<^verbatim>\<open>'first_name' not in data\<close> on an
  \<^verbatim>\<open>int\<close>, which raises \<^verbatim>\<open>TypeError\<close>: the handler returns no response of its own.
\<close>

theorem create_user_number_body:
  "create_user env empty_store (Some (JInt 5)) = (Uncaught TypeError, empty_store)"
  by (simp add: create_user_def fields_missing_def)

text \<open>The same evaluation, read off the theorem: no response, and the store as it was.\<close>

theorem create_user_number_body_witness:
  "fst (create_user exact_platform empty_store (Some (JInt 5))) = Uncaught TypeError
   \<and> snd (create_user exact_platform empty_store (Some (JInt 5))) = empty_store"
  using create_user_number_body[of exact_platform] by simp

lemma create_user_list_body:
  "create_user env s (Some (JArr [JStr ''first_name'', JStr ''last_name'', JStr ''email'']))
     = (Uncaught TypeError, s)"
  by (simp add: create_user_def fields_missing_def register_user_def)

lemma create_user_null_field:
  "create_user env empty_store
      (Some (JObj [(''first_name'', JNull), (''last_name'', JStr ''B''),
                   (''email'', JStr ''a@b.com'')]))
     = (Uncaught IntegrityError, empty_store)"
  by (simp add: create_user_def fields_missing_def register_user_def query_email_def
        bind_text_def add_user_def empty_store_def)

text \<open>Read off the theorem: the answer is not the empty array with 200 of the claim.\<close>

theorem get_towers_by_user_id_large_id_witness:
  "get_towers_by_user_id scenario_store (2 ^ 63) \<noteq> Response (JArr []) 200"
  using get_towers_by_user_id_large_id by simp

text \<open>Read off the theorem: neither answer is the 404 of the claim.\<close>

theorem get_by_id_large_id_witness:
  "get_tower scenario_store (2 ^ 63) \<noteq> Response (error_body ''Tower not found'') 404
   \<and> get_user scenario_store (2 ^ 63) \<noteq> Response (error_body ''User not found'') 404"
  using get_by_id_large_id by simp

end
